theory Spec2Isabelle
  imports Main "HOL-Library.Word" "HOL-Library.Signed_Division"
begin

section \<open>Go values used by the upload handlers\<close>

text \<open>
  A Go \<open>string\<close> and a \<open>[]byte\<close> are byte sequences: \<^typ>\<open>string\<close>.
  A Go \<open>error\<close> value is kept by its message; the limit error of
  \<open>http.MaxBytesReader\<close> has a constructor of its own.
\<close>

datatype error = Error string | MaxBytesError nat

text \<open>
  Go's \<open>int\<close> on a 64-bit platform: two's complement, \<open>*\<close> wraps around and
  \<open>/\<close> truncates towards zero.
\<close>

type_synonym go_int = "64 word"

definition go_mul :: "go_int \<Rightarrow> go_int \<Rightarrow> go_int" where
  "go_mul a b = a * b"

definition go_quo :: "go_int \<Rightarrow> go_int \<Rightarrow> go_int" where
  "go_quo a b = word_of_int (sint a sdiv sint b)"

section \<open>The media classifier: \<open>getVideoAspectRatio\<close>\<close>

text \<open>One element of \<open>FFProbeOutput.Streams\<close> (handler\_upload\_video.go, lines 160-166).\<close>

record Stream =
  CodecType :: string
  Width :: go_int
  Height :: go_int

record FFProbeOutput =
  Streams :: "Stream list"

text \<open>
  Lines 178-184: \<open>width\<close> and \<open>height\<close> start at zero and every stream whose
  codec type is \<open>video\<close> overwrites both.
\<close>

fun scanStreams :: "Stream list \<Rightarrow> go_int \<times> go_int \<Rightarrow> go_int \<times> go_int" where
  "scanStreams [] wh = wh"
| "scanStreams (stream # rest) wh =
     scanStreams rest (if CodecType stream = ''video'' then (Width stream, Height stream) else wh)"

text \<open>Lines 186-191: the comparison chain on the final \<open>width\<close> and \<open>height\<close>.\<close>

definition aspectRatioOf :: "go_int \<Rightarrow> go_int \<Rightarrow> string" where
  "aspectRatioOf width height =
     (if width = go_quo (go_mul 16 height) 9 then ''16:9''
      else if height = go_quo (go_mul 16 width) 9 then ''9:16''
      else ''other'')"

text \<open>Lines 178-191 as a whole, on the decoded probe output.\<close>

definition classifyStreams :: "FFProbeOutput \<Rightarrow> string" where
  "classifyStreams data = (case scanStreams (Streams data) (0, 0) of (width, height) \<Rightarrow> aspectRatioOf width height)"

text \<open>Lines 120-127 of the handler: the storage directory of an aspect ratio.\<close>

definition directoryOf :: "string \<Rightarrow> string" where
  "directoryOf aspectRatio =
     (if aspectRatio = ''16:9'' then ''landscape''
      else if aspectRatio = ''9:16'' then ''portrait''
      else ''other'')"

section \<open>Library functions the handlers call\<close>

text \<open>
  \<open>strings.Split(s, "/")\<close>, for the one-byte separator the handlers use: the pieces
  of \<open>s\<close> between separators; a string with no separator is returned whole, as the only
  element.
\<close>

fun strings_Split :: "string \<Rightarrow> char \<Rightarrow> string list" where
  "strings_Split [] sep = [[]]"
| "strings_Split (c # s) sep =
     (if c = sep then [] # strings_Split s sep
      else (case strings_Split s sep of [] \<Rightarrow> [[c]] | piece # pieces \<Rightarrow> (c # piece) # pieces))"

text \<open>A Go index expression \<open>xs[i]\<close>: \<open>None\<close> stands for the run-time panic out of range.\<close>

definition go_index :: "'a list \<Rightarrow> nat \<Rightarrow> 'a option" where
  "go_index xs i = (if i < length xs then Some (xs ! i) else None)"

text \<open>
  \<open>base64.RawURLEncoding.EncodeToString\<close> (RFC 4648, section 5, without padding):
  three bytes give four characters of the URL-safe alphabet, a rest of two bytes gives
  three characters and a rest of one byte gives two.
\<close>

definition encodeURL :: string where
  "encodeURL = ''ABCDEFGHIJKLMNOPQRSTUVWXYZabcdefghijklmnopqrstuvwxyz0123456789-_''"

definition encodeChar :: "nat \<Rightarrow> char" where
  "encodeChar i = encodeURL ! (i mod 64)"

fun EncodeToString :: "8 word list \<Rightarrow> string" where
  "EncodeToString (a # b # c # src) =
     (let val = unat a * 65536 + unat b * 256 + unat c
      in encodeChar (val div 262144) # encodeChar (val div 4096) # encodeChar (val div 64)
         # encodeChar val # EncodeToString src)"
| "EncodeToString [a, b] =
     (let val = unat a * 65536 + unat b * 256
      in [encodeChar (val div 262144), encodeChar (val div 4096), encodeChar (val div 64)])"
| "EncodeToString [a] =
     (let val = unat a * 65536
      in [encodeChar (val div 262144), encodeChar (val div 4096)])"
| "EncodeToString [] = []"

text \<open>
  \<open>base64.RawURLEncoding.DecodeString\<close>, on the strings the encoder produces: a character
  stands for its position in the alphabet, four characters give three bytes, a rest of
  three characters gives two bytes and a rest of two gives one.
\<close>

definition decodeChar :: "char \<Rightarrow> nat" where
  "decodeChar c = length (takeWhile (\<lambda>x. x \<noteq> c) encodeURL)"

fun DecodeString :: "string \<Rightarrow> 8 word list" where
  "DecodeString (p # q # r # s # src) =
     (let val = decodeChar p * 262144 + decodeChar q * 4096 + decodeChar r * 64 + decodeChar s
      in of_nat (val div 65536) # of_nat (val div 256 mod 256) # of_nat (val mod 256)
         # DecodeString src)"
| "DecodeString [p, q, r] =
     (let val = decodeChar p * 262144 + decodeChar q * 4096 + decodeChar r * 64
      in [of_nat (val div 65536), of_nat (val div 256 mod 256)])"
| "DecodeString [p, q] =
     (let val = decodeChar p * 262144 + decodeChar q * 4096
      in [of_nat (val div 65536)])"
| "DecodeString [p] = []"
| "DecodeString [] = []"

section \<open>Requests, configuration and the world outside the handler\<close>

type_synonym uuid = string

text \<open>
  Modelled from the spec: \<open>database.Video\<close> (package internal/database is not among the
  sources). The spec's Video Metadata Record has an identity, an owning-user identity, an
  optional video reference and an optional thumbnail reference; the descriptive fields are
  not touched by the handlers.
\<close>

record Video =
  ID :: uuid
  UserID :: uuid
  VideoURL :: "string option"
  ThumbnailURL :: "string option"

text \<open>
  The fields of \<open>apiConfig\<close> that the handlers read (the type is declared outside the
  two source files). Its \<open>db\<close> and \<open>s3Client\<close> are handles on the two stores, whose
  state is part of the world below.
\<close>

record apiConfig =
  jwtSecret :: string
  s3Bucket :: string
  s3Region :: string
  assetsRoot :: string
  port :: string

text \<open>
  One file part of a multipart form: the \<open>Content-Type\<close> of its header
  (\<open>header.Header.Get("Content-Type")\<close>) and its bytes.
\<close>

record FormPart =
  ContentType :: string
  Data :: string

text \<open>
  The request body as it is on the wire. A multipart body has a boundary, the file parts
  of the form in their order, each under its field name, and the bytes that follow the
  closing boundary; any other body is not a form. \<open>formBytes\<close> are the bytes of the form
  through its closing boundary (RFC 7578: for each part the boundary line, the two header
  lines, an empty line and the part's bytes), and \<open>wireBytes\<close> are all bytes the client
  sends.
\<close>

datatype RequestBody =
    MultipartBody string "(string \<times> FormPart) list" string
  | OtherBody string

definition CRLF :: string where
  "CRLF = [CHR 0x0D, CHR 0x0A]"

definition encodePart :: "string \<Rightarrow> string \<times> FormPart \<Rightarrow> string" where
  "encodePart boundary field =
     ''--'' @ boundary @ CRLF
     @ ''Content-Disposition: form-data; name='' @ [CHR 0x22] @ fst field @ [CHR 0x22]
     @ ''; filename='' @ [CHR 0x22] @ ''upload'' @ [CHR 0x22] @ CRLF
     @ ''Content-Type: '' @ ContentType (snd field) @ CRLF
     @ CRLF
     @ Data (snd field) @ CRLF"

fun formBytes :: "RequestBody \<Rightarrow> string" where
  "formBytes (MultipartBody boundary parts epilogue) =
     concat (map (encodePart boundary) parts) @ ''--'' @ boundary @ ''--'' @ CRLF"
| "formBytes (OtherBody bytes) = []"

fun wireBytes :: "RequestBody \<Rightarrow> string" where
  "wireBytes (MultipartBody boundary parts epilogue) =
     formBytes (MultipartBody boundary parts epilogue) @ epilogue"
| "wireBytes (OtherBody bytes) = bytes"

fun formFiles :: "RequestBody \<Rightarrow> error + (string \<times> FormPart) list" where
  "formFiles (MultipartBody boundary parts epilogue) = Inr parts"
| "formFiles (OtherBody bytes) = Inl (Error ''request Content-Type isn't multipart/form-data'')"

text \<open>
  \<open>bodySize\<close> is the number of bytes the client sends. \<open>formExtent\<close> is the number of
  bytes that parsing the form takes from the body: the multipart reader of mime/multipart
  stops at the closing boundary and does not read what follows it.
\<close>

definition bodySize :: "RequestBody \<Rightarrow> nat" where
  "bodySize body = length (wireBytes body)"

definition formExtent :: "RequestBody \<Rightarrow> nat" where
  "formExtent body = length (formBytes body)"

record Request =
  PathValue :: "string \<Rightarrow> string"
  Header :: "(string \<times> string) list"
  Body :: RequestBody
  bodyLimit :: "nat option"

text \<open>
  \<open>http.MaxBytesReader(w, r.Body, n)\<close>: the body may be read up to \<open>n\<close> bytes; a read
  that goes beyond fails with a \<open>MaxBytesError\<close>.
\<close>

definition MaxBytesReader :: "nat \<Rightarrow> Request \<Rightarrow> Request" where
  "MaxBytesReader n r = r\<lparr>bodyLimit := Some n\<rparr>"

definition readBody :: "Request \<Rightarrow> nat \<Rightarrow> error option" where
  "readBody r k =
     (case bodyLimit r of
        None \<Rightarrow> None
      | Some n \<Rightarrow> if n < k then Some (MaxBytesError n) else None)"

text \<open>
  \<open>r.FormFile(key)\<close>: a request that is not a multipart form is refused unread;
  otherwise the form is parsed from the body, which fails when the body cannot be read as
  far as the form extends, and the first file part under \<open>key\<close> is returned, or
  \<open>http.ErrMissingFile\<close>. The files in which net/http keeps large parts while it
  parses are its own and are not part of the filesystem of the model.
\<close>

definition FormFile :: "Request \<Rightarrow> string \<Rightarrow> error + FormPart" where
  "FormFile r key =
     (case formFiles (Body r) of
        Inl err \<Rightarrow> Inl err
      | Inr parts \<Rightarrow>
          (case readBody r (formExtent (Body r)) of
             Some err \<Rightarrow> Inl err
           | None \<Rightarrow>
               (case map_of parts key of
                  None \<Rightarrow> Inl (Error ''http: no such file'')
                | Some part \<Rightarrow> Inr part)))"

text \<open>The result of starting a subprocess and waiting for it: exit code and standard output.\<close>

datatype ProcResult = StartFailed error | Exited nat string

text \<open>
  What one request meets outside the handler. The functions of libraries and of the
  repository's package internal/auth, which is not among the sources, are parameters:
  \<open>uuid.Parse\<close>, \<open>auth.GetBearerToken\<close>, \<open>auth.ValidateJWT\<close>, \<open>mime.ParseMediaType\<close>,
  \<open>filepath.Join\<close> and the JSON decoder for \<open>FFProbeOutput\<close>. The other fields are the
  outcomes of the calls that leave the process: the name \<open>os.CreateTemp\<close> picks or its
  error, the errors of \<open>os.Create\<close>, \<open>io.Copy\<close>, \<open>rand.Read\<close>, \<open>PutObject\<close> and
  \<open>UpdateVideo\<close>, the bytes that the reader of crypto/rand delivers (\<open>cryptoRand\<close>, by position), and
  what running a command yields.
\<close>

record Env =
  uuid_Parse :: "string \<Rightarrow> error + uuid"
  GetBearerToken :: "(string \<times> string) list \<Rightarrow> error + string"
  ValidateJWT :: "string \<Rightarrow> string \<Rightarrow> error + uuid"
  ParseMediaType :: "string \<Rightarrow> error + string"
  filepath_Join :: "string \<Rightarrow> string \<Rightarrow> string"
  decodeFFProbe :: "string \<Rightarrow> error + FFProbeOutput"
  createTemp :: "error + string"
  createErr :: "error option"
  copyErr :: "error option"
  randErr :: "error option"
  cryptoRand :: "nat \<Rightarrow> 8 word"
  exec :: "string list \<Rightarrow> ProcResult"
  putObjectErr :: "error option"
  updateVideoErr :: "error option"

text \<open>The calls a handler issues to its collaborators, in the order it issues them.\<close>

datatype call =
    GetVideoCall uuid
  | UpdateVideoCall Video
  | PutObjectCall string string string string
  | CreateTempCall string
  | CreateCall string
  | RunCall "string list"
  | CloseCall string
  | RemoveCall string
  | MultipartCloseCall

fun isPutObject :: "call \<Rightarrow> bool" where
  "isPutObject (PutObjectCall bucket key contentType body) = True"
| "isPutObject c = False"

fun isUpdateVideo :: "call \<Rightarrow> bool" where
  "isUpdateVideo (UpdateVideoCall video) = True"
| "isUpdateVideo c = False"

fun isCreateTemp :: "call \<Rightarrow> bool" where
  "isCreateTemp (CreateTempCall name) = True"
| "isCreateTemp c = False"

fun isRun :: "call \<Rightarrow> bool" where
  "isRun (RunCall argv) = True"
| "isRun c = False"

text \<open>
  The state the handlers act on: the metadata store, the local filesystem, the open
  \<open>*os.File\<close> handles (by file name, with their read/write offset) and the log of calls.
\<close>

record World =
  db :: "uuid \<Rightarrow> Video option"
  files :: "string \<Rightarrow> string option"
  handles :: "string \<Rightarrow> nat option"
  calls :: "call list"

definition logCall :: "call \<Rightarrow> World \<Rightarrow> World" where
  "logCall c w = w\<lparr>calls := calls w @ [c]\<rparr>"

section \<open>The collaborators' operations\<close>

text \<open>
  Modelled from the spec: \<open>cfg.db.GetVideo\<close> and \<open>cfg.db.UpdateVideo\<close> (package
  internal/database is not among the sources). The spec gives the metadata store as
  \<open>GetByIdentity(id) -> (Record, error)\<close> and \<open>Update(Record) -> error\<close>: a lookup by
  identifier, and a write of the record under its identifier that may fail.
\<close>

definition db_GetVideo :: "uuid \<Rightarrow> World \<Rightarrow> (error + Video) \<times> World" where
  "db_GetVideo videoID w =
     ((case db w videoID of
         None \<Rightarrow> Inl (Error ''sql: no rows in result set'')
       | Some video \<Rightarrow> Inr video),
      logCall (GetVideoCall videoID) w)"

definition db_UpdateVideo :: "Env \<Rightarrow> Video \<Rightarrow> World \<Rightarrow> error option \<times> World" where
  "db_UpdateVideo env video w =
     (case updateVideoErr env of
        Some err \<Rightarrow> (Some err, logCall (UpdateVideoCall video) w)
      | None \<Rightarrow> (None, logCall (UpdateVideoCall video) (w\<lparr>db := (db w)(ID video \<mapsto> video)\<rparr>)))"

text \<open>
  \<open>os.CreateTemp\<close> creates a file that did not exist, empty, and opens it;
  \<open>os.Create\<close> creates or truncates the named file and opens it.
\<close>

definition os_CreateTemp :: "Env \<Rightarrow> World \<Rightarrow> (error + string) \<times> World" where
  "os_CreateTemp env w =
     (case createTemp env of
        Inl err \<Rightarrow> (Inl err, w)
      | Inr name \<Rightarrow>
          if files w name = None
          then (Inr name,
                logCall (CreateTempCall name)
                  (w\<lparr>files := (files w)(name \<mapsto> []), handles := (handles w)(name \<mapsto> 0)\<rparr>))
          else (Inl (Error ''file exists''), w))"

definition os_Create :: "Env \<Rightarrow> string \<Rightarrow> World \<Rightarrow> (error + string) \<times> World" where
  "os_Create env name w =
     (case createErr env of
        Some err \<Rightarrow> (Inl err, w)
      | None \<Rightarrow>
          (Inr name,
           logCall (CreateCall name)
             (w\<lparr>files := (files w)(name \<mapsto> []), handles := (handles w)(name \<mapsto> 0)\<rparr>)))"

text \<open>
  \<open>io.Copy(dst, src)\<close> into an open file: the bytes are written at the handle's offset
  (the file is new and empty here, so they are appended) and the offset moves behind them.
\<close>

definition io_Copy :: "Env \<Rightarrow> string \<Rightarrow> string \<Rightarrow> World \<Rightarrow> error option \<times> World" where
  "io_Copy env dst src w =
     (case copyErr env of
        Some err \<Rightarrow> (Some err, w)
      | None \<Rightarrow>
          (None,
           w\<lparr>files := (files w)(dst \<mapsto> (case files w dst of None \<Rightarrow> [] | Some old \<Rightarrow> old) @ src),
             handles := (handles w)(dst \<mapsto> (case handles w dst of None \<Rightarrow> 0 | Some off \<Rightarrow> off) + length src)\<rparr>))"

definition file_Seek :: "string \<Rightarrow> nat \<Rightarrow> World \<Rightarrow> World" where
  "file_Seek name off w = w\<lparr>handles := (handles w)(name \<mapsto> off)\<rparr>"

text \<open>What a reader of the open file gets: its bytes from the handle's offset on.\<close>

definition file_Read :: "string \<Rightarrow> World \<Rightarrow> string" where
  "file_Read name w =
     drop (case handles w name of None \<Rightarrow> 0 | Some off \<Rightarrow> off)
          (case files w name of None \<Rightarrow> [] | Some content \<Rightarrow> content)"

definition file_Close :: "string \<Rightarrow> World \<Rightarrow> World" where
  "file_Close name w = logCall (CloseCall name) (w\<lparr>handles := (handles w)(name := None)\<rparr>)"

definition os_Remove :: "string \<Rightarrow> World \<Rightarrow> World" where
  "os_Remove name w = logCall (RemoveCall name) (w\<lparr>files := (files w)(name := None)\<rparr>)"

text \<open>
  \<open>rand.Read\<close> of package crypto/rand (the import of line 5) on a buffer of \<open>n\<close> bytes:
  fills all of it with the next bytes of that source, or fails.
\<close>

definition rand_Read :: "Env \<Rightarrow> nat \<Rightarrow> error + 8 word list" where
  "rand_Read env n =
     (case randErr env of
        Some err \<Rightarrow> Inl err
      | None \<Rightarrow> Inr (map (cryptoRand env) [0..<n]))"

text \<open>
  \<open>cmd.Run()\<close> with \<open>cmd.Stdout = &out\<close>: the buffer holds what the process wrote, and
  nothing when the process could not be started; the error reports a failed start or a
  non-zero exit.
\<close>

definition captured :: "ProcResult \<Rightarrow> string" where
  "captured res = (case res of StartFailed err \<Rightarrow> [] | Exited code out \<Rightarrow> out)"

definition runError :: "ProcResult \<Rightarrow> error option" where
  "runError res =
     (case res of
        StartFailed err \<Rightarrow> Some err
      | Exited code out \<Rightarrow> if code = 0 then None else Some (Error ''exit status''))"

definition cmd_Run :: "Env \<Rightarrow> string list \<Rightarrow> World \<Rightarrow> (string \<times> error option) \<times> World" where
  "cmd_Run env argv w = ((captured (exec env argv), runError (exec env argv)), logCall (RunCall argv) w)"

text \<open>
  \<open>json.Unmarshal(out.Bytes(), &data)\<close>: empty input is a syntax error
  (unexpected end of JSON input); any other input is left to the decoder.
\<close>

definition json_Unmarshal :: "Env \<Rightarrow> string \<Rightarrow> error + FFProbeOutput" where
  "json_Unmarshal env bs =
     (if bs = [] then Inl (Error ''unexpected end of JSON input'') else decodeFFProbe env bs)"

text \<open>\<open>cfg.s3Client.PutObject\<close> with bucket, key, body and content type.\<close>

definition s3_PutObject :: "Env \<Rightarrow> string \<Rightarrow> string \<Rightarrow> string \<Rightarrow> string \<Rightarrow> World \<Rightarrow> error option \<times> World" where
  "s3_PutObject env bucket key body contentType w =
     (putObjectErr env, logCall (PutObjectCall bucket key contentType body) w)"

text \<open>The deferred \<open>Close\<close> of the multipart file returned by \<open>FormFile\<close>.\<close>

definition multipart_Close :: "World \<Rightarrow> World" where
  "multipart_Close w = logCall MultipartCloseCall w"

section \<open>\<open>getVideoAspectRatio\<close> (handler\_upload\_video.go, lines 158-192)\<close>

definition ffprobeArgs :: "string \<Rightarrow> string list" where
  "ffprobeArgs filePath =
     [''ffprobe'', ''-v'', ''error'', ''-print_format'', ''json'', ''-show_streams'', filePath]"

text \<open>The value of \<open>cmd.Run()\<close> is dropped (line 170); only the decoding can fail.\<close>

definition getVideoAspectRatio :: "Env \<Rightarrow> string \<Rightarrow> World \<Rightarrow> (error + string) \<times> World" where
  "getVideoAspectRatio env filePath w =
     (case cmd_Run env (ffprobeArgs filePath) w of
        ((out, runErr), w1) \<Rightarrow>
          (case json_Unmarshal env out of
             Inl err \<Rightarrow> (Inl err, w1)
           | Inr data \<Rightarrow> (Inr (classifyStreams data), w1)))"

section \<open>\<open>handlerUploadVideo\<close> (handler\_upload\_video.go, lines 21-156)\<close>

text \<open>
  Modelled from the spec: \<open>respondWithError\<close> and \<open>respondWithJSON\<close> (their file is not
  among the sources). The spec has, on failure, an error status with a short message and
  no internal error detail in the body, and on success the status 200 with the updated
  metadata record. What a handler leaves behind is one of these two responses, or a panic.
\<close>

datatype outcome =
    respondWithError nat string
  | respondWithJSON nat Video
  | panic string

abbreviation StatusOK :: nat where "StatusOK \<equiv> 200"
abbreviation StatusBadRequest :: nat where "StatusBadRequest \<equiv> 400"
abbreviation StatusUnauthorized :: nat where "StatusUnauthorized \<equiv> 401"
abbreviation StatusInternalServerError :: nat where "StatusInternalServerError \<equiv> 500"

definition indexPanic :: string where
  "indexPanic = ''runtime error: index out of range [1] with length 1''"

text \<open>Lines 95-155: from the copy into the staged file to the response.\<close>

definition uploadStaged ::
  "apiConfig \<Rightarrow> Env \<Rightarrow> Video \<Rightarrow> FormPart \<Rightarrow> string \<Rightarrow> string \<Rightarrow> string \<Rightarrow> World \<Rightarrow> outcome \<times> World" where
  "uploadStaged cfg env videoMetadata videoFile mediaType extension tempFile w =
     (case io_Copy env tempFile (Data videoFile) w of
        (Some err, w1) \<Rightarrow> (respondWithError StatusInternalServerError ''Couldn't write video data'', w1)
      | (None, w1) \<Rightarrow>
     (case rand_Read env 32 of
        Inl err \<Rightarrow>
          (respondWithError StatusInternalServerError ''Couldn't generate random name'',
           file_Seek tempFile 0 w1)
      | Inr videoRandomName \<Rightarrow>
     (case getVideoAspectRatio env tempFile (file_Seek tempFile 0 w1) of
        (Inl err, w2) \<Rightarrow> (respondWithError StatusInternalServerError ''Couldn't get aspect ratio'', w2)
      | (Inr aspectRatio, w2) \<Rightarrow>
     (case s3_PutObject env (s3Bucket cfg)
             (directoryOf aspectRatio @ ''/'' @ EncodeToString videoRandomName @ ''.'' @ extension)
             (file_Read tempFile w2) mediaType w2 of
        (Some err, w3) \<Rightarrow> (respondWithError StatusInternalServerError ''Couldn't upload to S3'', w3)
      | (None, w3) \<Rightarrow>
     (case db_UpdateVideo env
             (videoMetadata\<lparr>VideoURL := Some (''https://'' @ s3Bucket cfg @ ''.s3.'' @ s3Region cfg
                @ ''.amazonaws.com/'' @ directoryOf aspectRatio @ ''/''
                @ EncodeToString videoRandomName @ ''.'' @ extension)\<rparr>) w3 of
        (Some err, w4) \<Rightarrow> (respondWithError StatusInternalServerError ''Couldn't update video'', w4)
      | (None, w4) \<Rightarrow>
          (respondWithJSON StatusOK
             (videoMetadata\<lparr>VideoURL := Some (''https://'' @ s3Bucket cfg @ ''.s3.'' @ s3Region cfg
                @ ''.amazonaws.com/'' @ directoryOf aspectRatio @ ''/''
                @ EncodeToString videoRandomName @ ''.'' @ extension)\<rparr>), w4))))))"

text \<open>
  Lines 70-93 and the two deferred calls registered there: the staged file is closed and
  then removed (deferred calls run last in, first out) whatever lines 95-155 return.
\<close>

definition uploadParsed :: "apiConfig \<Rightarrow> Env \<Rightarrow> Video \<Rightarrow> FormPart \<Rightarrow> World \<Rightarrow> outcome \<times> World" where
  "uploadParsed cfg env videoMetadata videoFile w =
     (case ParseMediaType env (ContentType videoFile) of
        Inl err \<Rightarrow> (respondWithError StatusBadRequest ''Invalid ID'', w)
      | Inr mediaType \<Rightarrow>
     (case go_index (strings_Split mediaType CHR ''/'') 1 of
        None \<Rightarrow> (panic indexPanic, w)
      | Some extension \<Rightarrow>
          if mediaType \<noteq> ''video/mp4''
          then (respondWithError StatusBadRequest ''Invalid file upload'', w)
          else
     (case os_CreateTemp env w of
        (Inl err, w1) \<Rightarrow> (respondWithError StatusInternalServerError ''Couldn't create temp file'', w1)
      | (Inr tempFile, w1) \<Rightarrow>
          (case uploadStaged cfg env videoMetadata videoFile mediaType extension tempFile w1 of
             (out, w2) \<Rightarrow> (out, os_Remove tempFile (file_Close tempFile w2))))))"

text \<open>
  Lines 25-68: the identifier, the token, the metadata record, the ownership check and the
  form file, whose deferred \<open>Close\<close> runs when the handler returns or panics.
\<close>

definition uploadCapped :: "apiConfig \<Rightarrow> Env \<Rightarrow> Request \<Rightarrow> World \<Rightarrow> outcome \<times> World" where
  "uploadCapped cfg env r w =
     (case uuid_Parse env (PathValue r ''videoID'') of
        Inl err \<Rightarrow> (respondWithError StatusBadRequest ''Invalid ID'', w)
      | Inr videoId \<Rightarrow>
     (case GetBearerToken env (Header r) of
        Inl err \<Rightarrow> (respondWithError StatusUnauthorized ''Couldn't find JWT'', w)
      | Inr token \<Rightarrow>
     (case ValidateJWT env token (jwtSecret cfg) of
        Inl err \<Rightarrow> (respondWithError StatusUnauthorized ''Couldn't validate JWT'', w)
      | Inr userId \<Rightarrow>
     (case db_GetVideo videoId w of
        (Inl err, w1) \<Rightarrow> (respondWithError StatusInternalServerError ''Couldn't find video metadata'', w1)
      | (Inr videoMetadata, w1) \<Rightarrow>
          if UserID videoMetadata \<noteq> userId
          then (respondWithError StatusUnauthorized ''User not authorized'', w1)
          else
     (case FormFile r ''video'' of
        Inl err \<Rightarrow> (respondWithError StatusBadRequest ''Unable to parse video file'', w1)
      | Inr videoFile \<Rightarrow>
          (case uploadParsed cfg env videoMetadata videoFile w1 of
             (out, w2) \<Rightarrow> (out, multipart_Close w2)))))))"

text \<open>
  Lines 21-23: the first statement replaces \<open>r.Body\<close> by a reader capped at \<open>1<<30\<close>
  bytes; everything else works on the capped request.
\<close>

definition handlerUploadVideo :: "apiConfig \<Rightarrow> Env \<Rightarrow> Request \<Rightarrow> World \<Rightarrow> outcome \<times> World" where
  "handlerUploadVideo cfg env r w = uploadCapped cfg env (MaxBytesReader (push_bit 30 1) r) w"

section \<open>\<open>handlerUploadThumbnail\<close> (lines 15-85 of the second source file)\<close>

text \<open>
  Lines 48-84. The media type is the raw header value, and the created file is neither
  closed nor removed.
\<close>

definition thumbnailParsed ::
  "apiConfig \<Rightarrow> Env \<Rightarrow> uuid \<Rightarrow> uuid \<Rightarrow> FormPart \<Rightarrow> World \<Rightarrow> outcome \<times> World" where
  "thumbnailParsed cfg env videoID userID file w =
     (case db_GetVideo videoID w of
        (Inl err, w1) \<Rightarrow> (respondWithError StatusInternalServerError ''Unabel to fetch video metadata'', w1)
      | (Inr videoMetadata, w1) \<Rightarrow>
          if userID \<noteq> UserID videoMetadata
          then (respondWithError StatusUnauthorized ''Not allowed'', w1)
          else
     (case go_index (strings_Split (ContentType file) CHR ''/'') 1 of
        None \<Rightarrow> (panic indexPanic, w1)
      | Some fileExtension \<Rightarrow>
     (case os_Create env (filepath_Join env (assetsRoot cfg) videoID @ ''.'' @ fileExtension) w1 of
        (Inl err, w2) \<Rightarrow> (respondWithError StatusInternalServerError ''Couldn't create file'', w2)
      | (Inr out, w2) \<Rightarrow>
     (case io_Copy env out (Data file) w2 of
        (Some err, w3) \<Rightarrow> (respondWithError StatusInternalServerError ''Couldn't write data'', w3)
      | (None, w3) \<Rightarrow>
     (case db_UpdateVideo env
             (videoMetadata\<lparr>ThumbnailURL := Some (''http://localhost:'' @ port cfg @ ''/assets/''
                @ videoID @ ''.'' @ fileExtension)\<rparr>) w3 of
        (Some err, w4) \<Rightarrow> (respondWithError StatusBadRequest ''Unable to update video'', w4)
      | (None, w4) \<Rightarrow>
          (respondWithJSON StatusOK
             (videoMetadata\<lparr>ThumbnailURL := Some (''http://localhost:'' @ port cfg @ ''/assets/''
                @ videoID @ ''.'' @ fileExtension)\<rparr>), w4))))))"

text \<open>
  Lines 15-46. The value of \<open>r.ParseMultipartForm\<close> is dropped (line 39), so the form's
  error surfaces at \<open>r.FormFile\<close>; the body is not capped.
\<close>

definition handlerUploadThumbnail :: "apiConfig \<Rightarrow> Env \<Rightarrow> Request \<Rightarrow> World \<Rightarrow> outcome \<times> World" where
  "handlerUploadThumbnail cfg env r w =
     (case uuid_Parse env (PathValue r ''videoID'') of
        Inl err \<Rightarrow> (respondWithError StatusBadRequest ''Invalid ID'', w)
      | Inr videoID \<Rightarrow>
     (case GetBearerToken env (Header r) of
        Inl err \<Rightarrow> (respondWithError StatusUnauthorized ''Couldn't find JWT'', w)
      | Inr token \<Rightarrow>
     (case ValidateJWT env token (jwtSecret cfg) of
        Inl err \<Rightarrow> (respondWithError StatusUnauthorized ''Couldn't validate JWT'', w)
      | Inr userID \<Rightarrow>
     (case FormFile r ''thumbnail'' of
        Inl err \<Rightarrow> (respondWithError StatusBadRequest ''Unable to parse form file'', w)
      | Inr file \<Rightarrow>
          (case thumbnailParsed cfg env videoID userID file w of
             (out, w1) \<Rightarrow> (out, multipart_Close w1))))))"

section \<open>A concrete deployment, for running the handlers\<close>

definition exampleConfig :: apiConfig where
  "exampleConfig =
     \<lparr>jwtSecret = ''secret'', s3Bucket = ''tubely'', s3Region = ''us-east-2'',
      assetsRoot = ''assets'', port = ''8091''\<rparr>"

definition exampleVideo :: Video where
  "exampleVideo = \<lparr>ID = ''video-1'', UserID = ''alice'', VideoURL = None, ThumbnailURL = None\<rparr>"

definition exampleWorld :: World where
  "exampleWorld =
     \<lparr>db = [''video-1'' \<mapsto> exampleVideo], files = Map.empty, handles = Map.empty, calls = []\<rparr>"

text \<open>
  An environment in which every collaborator works: tokens \<open>alice-token\<close> and
  \<open>bob-token\<close> are valid, \<open>ffprobe\<close> reports one 1920 by 1080 video stream and an audio
  stream, and the random source yields the bytes 0, 1, 2, ...
\<close>

definition exampleEnv :: Env where
  "exampleEnv =
     \<lparr>uuid_Parse = (\<lambda>s. if s = [] then Inl (Error ''invalid UUID length: 0'') else Inr s),
      GetBearerToken = (\<lambda>headers.
         case map_of headers ''Authorization'' of
           None \<Rightarrow> Inl (Error ''no auth header included in request'')
         | Some v \<Rightarrow> if take 7 v = ''Bearer '' then Inr (drop 7 v)
                     else Inl (Error ''malformed authorization header'')),
      ValidateJWT = (\<lambda>token secret.
         if token = ''alice-token'' then Inr ''alice''
         else if token = ''bob-token'' then Inr ''bob''
         else Inl (Error ''invalid token'')),
      ParseMediaType = (\<lambda>v. if v = [] then Inl (Error ''mime: no media type'') else Inr v),
      filepath_Join = (\<lambda>dir name. dir @ ''/'' @ name),
      decodeFFProbe = (\<lambda>bs.
         if bs = ''{streams:[video 1920x1080, audio]}''
         then Inr \<lparr>Streams = [\<lparr>CodecType = ''video'', Width = 1920, Height = 1080\<rparr>,
                               \<lparr>CodecType = ''audio'', Width = 0, Height = 0\<rparr>]\<rparr>
         else if bs = ''{streams:[video 1080x1920]}''
         then Inr \<lparr>Streams = [\<lparr>CodecType = ''video'', Width = 1080, Height = 1920\<rparr>]\<rparr>
         else if bs = ''{streams:[video 1000x1000]}''
         then Inr \<lparr>Streams = [\<lparr>CodecType = ''video'', Width = 1000, Height = 1000\<rparr>]\<rparr>
         else if bs = ''{}'' then Inr \<lparr>Streams = []\<rparr>
         else Inl (Error ''invalid character'')),
      createTemp = Inr ''/tmp/tubely-upload.mp4-1'',
      createErr = None,
      copyErr = None,
      randErr = None,
      cryptoRand = (\<lambda>i. of_nat i),
      exec = (\<lambda>argv. Exited 0 ''{streams:[video 1920x1080, audio]}''),
      putObjectErr = None,
      updateVideoErr = None\<rparr>"

definition exampleBody :: "string \<Rightarrow> RequestBody" where
  "exampleBody contentType =
     MultipartBody ''tubely-boundary''
       [(''video'', \<lparr>ContentType = contentType, Data = ''mp4-bytes''\<rparr>)] []"

definition exampleRequest :: "string \<Rightarrow> RequestBody \<Rightarrow> Request" where
  "exampleRequest token body =
     \<lparr>PathValue = (\<lambda>name. if name = ''videoID'' then ''video-1'' else []),
      Header = [(''Authorization'', ''Bearer '' @ token)],
      Body = body,
      bodyLimit = None\<rparr>"

text \<open>
  Two bodies larger than one GiB. In the first the form is small and closed, and \<open>2^30\<close>
  more bytes follow its closing boundary; in the second the video part itself has \<open>2^30\<close>
  bytes.
\<close>

definition exampleTrailingBody :: RequestBody where
  "exampleTrailingBody =
     MultipartBody ''tubely-boundary''
       [(''video'', \<lparr>ContentType = ''video/mp4'', Data = ''mp4-bytes''\<rparr>)]
       (replicate (2 ^ 30) CHR ''0'')"

definition exampleOverlongBody :: RequestBody where
  "exampleOverlongBody =
     MultipartBody ''tubely-boundary''
       [(''video'', \<lparr>ContentType = ''video/mp4'', Data = replicate (2 ^ 30) CHR ''0''\<rparr>)] []"

definition exampleThumbnailBody :: "string \<Rightarrow> RequestBody" where
  "exampleThumbnailBody contentType =
     MultipartBody ''tubely-boundary''
       [(''thumbnail'', \<lparr>ContentType = contentType, Data = ''png-bytes''\<rparr>)] []"

section \<open>Facts about the parts\<close>

lemmas step_defs = db_GetVideo_def db_UpdateVideo_def os_CreateTemp_def
  io_Copy_def file_Seek_def file_Close_def os_Remove_def rand_Read_def
  getVideoAspectRatio_def cmd_Run_def s3_PutObject_def
  multipart_Close_def logCall_def

lemmas result_splits = prod.splits sum.splits option.splits if_splits

lemmas example_defs = exampleConfig_def exampleEnv_def exampleRequest_def exampleBody_def
  exampleWorld_def exampleVideo_def exampleTrailingBody_def exampleOverlongBody_def
  exampleThumbnailBody_def

lemmas eval_defs = handlerUploadVideo_def uploadCapped_def uploadParsed_def uploadStaged_def
  MaxBytesReader_def FormFile_def readBody_def formExtent_def encodePart_def CRLF_def
  file_Read_def captured_def runError_def
  json_Unmarshal_def ffprobeArgs_def go_index_def classifyStreams_def aspectRatioOf_def
  directoryOf_def go_quo_def go_mul_def signed_divide_int_def indexPanic_def

text \<open>The loop keeps the last video stream, or the zeros it started from.\<close>

lemma scanStreams_last_video:
  "scanStreams ss wh =
     (case filter (\<lambda>s. CodecType s = ''video'') ss of
        [] \<Rightarrow> wh
      | v # vs \<Rightarrow> (Width (last (v # vs)), Height (last (v # vs))))"
  by (induction ss arbitrary: wh) (auto split: list.splits)

lemma getVideoAspectRatio_result:
  "fst (getVideoAspectRatio env filePath w) =
     (case json_Unmarshal env (captured (exec env (ffprobeArgs filePath))) of
        Inl err \<Rightarrow> Inl err
      | Inr data \<Rightarrow> Inr (classifyStreams data))"
  by (simp add: getVideoAspectRatio_def cmd_Run_def split: sum.splits)

lemma getVideoAspectRatio_world:
  "snd (getVideoAspectRatio env filePath w) = logCall (RunCall (ffprobeArgs filePath)) w"
  by (simp add: getVideoAspectRatio_def cmd_Run_def split: sum.splits)

lemma aspectRatioOf_examples:
  "aspectRatioOf 1920 1080 = ''16:9''"
  "aspectRatioOf 1080 1920 = ''9:16''"
  "aspectRatioOf 1000 1000 = ''other''"
  "aspectRatioOf 0 0 = ''16:9''"
  by (simp_all add: aspectRatioOf_def go_quo_def go_mul_def signed_divide_int_def)

text \<open>
  On dimensions that do not overflow, \<open>16*height/9\<close> is the truncated quotient of the
  natural numbers.
\<close>

lemma sint_word_of_int_64:
  assumes "- (2 ^ 63) \<le> k" and "k < 2 ^ 63"
  shows "sint (word_of_int k :: 64 word) = k"
proof -
  have "sint (word_of_int k :: 64 word) = signed_take_bit 63 k"
    by (simp only: sint_sbintrunc') simp
  also have "\<dots> = k"
    using assms by (rule signed_take_bit_int_eq_self)
  finally show ?thesis .
qed

lemma go_quo_nat:
  assumes "h < 2 ^ 59"
  shows "go_quo (go_mul 16 (of_nat h)) 9 = of_nat (16 * h div 9)"
proof -
  have eq: "(16 * word_of_nat h :: 64 word) = word_of_int (16 * int h)"
    by simp
  have "sint (word_of_int (16 * int h) :: 64 word) = 16 * int h"
    using assms by (intro sint_word_of_int_64) auto
  then have "sint (16 * word_of_nat h :: 64 word) = 16 * int h"
    by (simp only: eq)
  moreover have "(16 * int h) sdiv 9 = int (16 * h div 9)"
    by (cases "h = 0") (simp_all add: signed_divide_int_def zdiv_int)
  ultimately show ?thesis
    by (simp add: go_quo_def go_mul_def)
qed

text \<open>The token: 43 characters of the URL-safe alphabet for 32 bytes, and no padding.\<close>

lemma length_EncodeToString: "length (EncodeToString src) = (4 * length src + 2) div 3"
  by (induction src rule: EncodeToString.induct) (simp_all add: Let_def)

lemma length_encodeURL: "length encodeURL = 64"
  by (simp add: encodeURL_def)

lemma encodeChar_in_alphabet: "encodeChar i \<in> set encodeURL"
  unfolding encodeChar_def by (rule nth_mem) (simp add: length_encodeURL)

lemma set_EncodeToString: "set (EncodeToString src) \<subseteq> set encodeURL"
  by (induction src rule: EncodeToString.induct) (simp_all add: Let_def encodeChar_in_alphabet)

lemma strings_Split_no_sep: "sep \<notin> set s \<Longrightarrow> strings_Split s sep = [s]"
  by (induction s) auto

lemma strings_Split_mp4: "go_index (strings_Split ''video/mp4'' CHR ''/'') 1 = Some ''mp4''"
  by (simp add: go_index_def)

lemma directoryOf_cases: "directoryOf a \<in> {''landscape'', ''portrait'', ''other''}"
  by (simp add: directoryOf_def)

text \<open>The index range of the 32 random bytes, written out for evaluation.\<close>

lemma upt_32:
  "[0..<32] = [0, 1, 2, 3, 4, 5, 6, 7, 8, 9, 10, 11, 12, 13, 14, 15, 16, 17, 18, 19, 20, 21,
               22, 23, 24, 25, 26, 27, 28, 29, 30, 31]"
  by (simp add: upt_rec eval_nat_numeral)

lemma example_token:
  "EncodeToString (map (cryptoRand exampleEnv) [0..<32]) = ''AAECAwQFBgcICQoLDA0ODxAREhMUFRYXGBkaGxwdHh8''"
  by (simp add: exampleEnv_def encodeChar_def encodeURL_def upt_32)

text \<open>
  A response with a record comes from one path only: every step before it has succeeded.
\<close>

lemma uploadStaged_success:
  assumes "uploadStaged cfg env vm vf mt ext tf w = (respondWithJSON code video, w')"
  shows "code = StatusOK \<and>
    (\<exists>data body. json_Unmarshal env (captured (exec env (ffprobeArgs tf))) = Inr data \<and>
       video = vm\<lparr>VideoURL := Some (''https://'' @ s3Bucket cfg @ ''.s3.'' @ s3Region cfg
                @ ''.amazonaws.com/'' @ directoryOf (classifyStreams data) @ ''/''
                @ EncodeToString (map (cryptoRand env) [0..<32]) @ ''.'' @ ext)\<rparr> \<and>
       db w' = (db w)(ID vm \<mapsto> video) \<and>
       filter isPutObject (calls w') = filter isPutObject (calls w) @
         [PutObjectCall (s3Bucket cfg)
            (directoryOf (classifyStreams data) @ ''/'' @ EncodeToString (map (cryptoRand env) [0..<32]) @ ''.'' @ ext)
            mt body])"
  using assms
  by (auto simp: uploadStaged_def step_defs split: result_splits)

lemma uploadParsed_success:
  assumes "uploadParsed cfg env vm vf w = (respondWithJSON code video, w')"
  shows "code = StatusOK \<and> ParseMediaType env (ContentType vf) = Inr ''video/mp4'' \<and>
    (\<exists>tf data body. createTemp env = Inr tf \<and>
       json_Unmarshal env (captured (exec env (ffprobeArgs tf))) = Inr data \<and>
       video = vm\<lparr>VideoURL := Some (''https://'' @ s3Bucket cfg @ ''.s3.'' @ s3Region cfg
                @ ''.amazonaws.com/'' @ directoryOf (classifyStreams data) @ ''/''
                @ EncodeToString (map (cryptoRand env) [0..<32]) @ ''.mp4'')\<rparr> \<and>
       db w' = (db w)(ID vm \<mapsto> video) \<and>
       filter isPutObject (calls w') = filter isPutObject (calls w) @
         [PutObjectCall (s3Bucket cfg)
            (directoryOf (classifyStreams data) @ ''/'' @ EncodeToString (map (cryptoRand env) [0..<32]) @ ''.mp4'')
            ''video/mp4'' body])"
proof -
  from assms obtain tf w1 w2 where
    mt: "ParseMediaType env (ContentType vf) = Inr ''video/mp4''" and
    ct: "os_CreateTemp env w = (Inr tf, w1)" and
    st: "uploadStaged cfg env vm vf ''video/mp4'' ''mp4'' tf w1 = (respondWithJSON code video, w2)" and
    w': "w' = os_Remove tf (file_Close tf w2)"
    by (auto simp: uploadParsed_def go_index_def split: result_splits)
  from ct have tf: "createTemp env = Inr tf" and w1: "db w1 = db w"
      "filter isPutObject (calls w1) = filter isPutObject (calls w)"
    by (auto simp: os_CreateTemp_def logCall_def split: result_splits)
  show ?thesis
    using uploadStaged_success [OF st] mt tf w1 w'
    by (auto simp: file_Close_def os_Remove_def logCall_def)
qed

lemma uploadCapped_success:
  assumes "uploadCapped cfg env r w = (respondWithJSON code video, w')"
  shows "code = StatusOK \<and>
    (\<exists>videoId token vm vf tf data body.
       uuid_Parse env (PathValue r ''videoID'') = Inr videoId \<and>
       GetBearerToken env (Header r) = Inr token \<and>
       ValidateJWT env token (jwtSecret cfg) = Inr (UserID vm) \<and>
       db w videoId = Some vm \<and>
       FormFile r ''video'' = Inr vf \<and>
       ParseMediaType env (ContentType vf) = Inr ''video/mp4'' \<and>
       createTemp env = Inr tf \<and>
       json_Unmarshal env (captured (exec env (ffprobeArgs tf))) = Inr data \<and>
       video = vm\<lparr>VideoURL := Some (''https://'' @ s3Bucket cfg @ ''.s3.'' @ s3Region cfg
                @ ''.amazonaws.com/'' @ directoryOf (classifyStreams data) @ ''/''
                @ EncodeToString (map (cryptoRand env) [0..<32]) @ ''.mp4'')\<rparr> \<and>
       db w' = (db w)(ID vm \<mapsto> video) \<and>
       filter isPutObject (calls w') = filter isPutObject (calls w) @
         [PutObjectCall (s3Bucket cfg)
            (directoryOf (classifyStreams data) @ ''/'' @ EncodeToString (map (cryptoRand env) [0..<32]) @ ''.mp4'')
            ''video/mp4'' body])"
proof -
  from assms obtain videoId token vm vf w2 where
    h: "uuid_Parse env (PathValue r ''videoID'') = Inr videoId"
       "GetBearerToken env (Header r) = Inr token"
       "ValidateJWT env token (jwtSecret cfg) = Inr (UserID vm)"
       "db w videoId = Some vm"
       "FormFile r ''video'' = Inr vf" and
    p: "uploadParsed cfg env vm vf (logCall (GetVideoCall videoId) w) = (respondWithJSON code video, w2)" and
    w': "w' = multipart_Close w2"
    by (auto simp: uploadCapped_def db_GetVideo_def split: result_splits)
  show ?thesis
    using uploadParsed_success [OF p] h w'
    by (auto simp: multipart_Close_def logCall_def)
qed

text \<open>
  The ways out of lines 70-93 and of lines 25-68: either the request is turned away with
  the world as it was (but for the logged lookup), or the next part of the handler runs
  and the deferred calls follow it.
\<close>

lemma uploadParsed_cases [consumes 1, case_names rejected staged]:
  assumes "uploadParsed cfg env vm vf w = (out, w')"
  obtains
    (rejected) "w' = w"
      "out = respondWithError StatusBadRequest ''Invalid ID'' \<or> out = panic indexPanic
       \<or> out = respondWithError StatusBadRequest ''Invalid file upload''
       \<or> out = respondWithError StatusInternalServerError ''Couldn't create temp file''"
  | (staged) tf w2 where
      "ParseMediaType env (ContentType vf) = Inr ''video/mp4''"
      "createTemp env = Inr tf"
      "files w tf = None"
      "uploadStaged cfg env vm vf ''video/mp4'' ''mp4'' tf
         (logCall (CreateTempCall tf)
            (w\<lparr>files := (files w)(tf \<mapsto> []), handles := (handles w)(tf \<mapsto> 0)\<rparr>)) = (out, w2)"
      "w' = os_Remove tf (file_Close tf w2)"
  using assms
  by (auto simp: uploadParsed_def os_CreateTemp_def go_index_def split: result_splits)

lemma uploadCapped_cases [consumes 1, case_names refused parsed]:
  assumes run: "uploadCapped cfg env r w = (out, w')"
  obtains
    (refused) code msg where
      "out = respondWithError code msg"
      "msg \<noteq> ''Couldn't get aspect ratio''"
      "db w' = db w" "files w' = files w" "handles w' = handles w"
      "calls w' = calls w \<or> (\<exists>videoId. calls w' = calls w @ [GetVideoCall videoId])"
  | (parsed) videoId vm vf w2 where
      "db w videoId = Some vm"
      "FormFile r ''video'' = Inr vf"
      "uploadParsed cfg env vm vf (logCall (GetVideoCall videoId) w) = (out, w2)"
      "w' = multipart_Close w2"
proof (cases "uuid_Parse env (PathValue r ''videoID'')")
  case (Inl e)
  with run have o: "out = respondWithError StatusBadRequest ''Invalid ID''" and w: "w' = w"
    by (simp_all add: uploadCapped_def)
  show ?thesis by (rule refused [OF o]) (simp_all add: w)
next
  case u: (Inr videoId)
  show ?thesis
  proof (cases "GetBearerToken env (Header r)")
    case (Inl e)
    with run u have o: "out = respondWithError StatusUnauthorized ''Couldn't find JWT''" and w: "w' = w"
      by (simp_all add: uploadCapped_def)
    show ?thesis by (rule refused [OF o]) (simp_all add: w)
  next
    case t: (Inr token)
    show ?thesis
    proof (cases "ValidateJWT env token (jwtSecret cfg)")
      case (Inl e)
      with run u t have o: "out = respondWithError StatusUnauthorized ''Couldn't validate JWT''" and w: "w' = w"
        by (simp_all add: uploadCapped_def)
      show ?thesis by (rule refused [OF o]) (simp_all add: w)
    next
      case j: (Inr userId)
      show ?thesis
      proof (cases "db w videoId")
        case None
        with run u t j have o: "out = respondWithError StatusInternalServerError ''Couldn't find video metadata''"
          and w: "w' = logCall (GetVideoCall videoId) w"
          by (simp_all add: uploadCapped_def db_GetVideo_def)
        show ?thesis by (rule refused [OF o]) (simp_all add: w logCall_def)
      next
        case g: (Some vm)
        show ?thesis
        proof (cases "UserID vm = userId")
          case False
          with run u t j g have o: "out = respondWithError StatusUnauthorized ''User not authorized''"
            and w: "w' = logCall (GetVideoCall videoId) w"
            by (simp_all add: uploadCapped_def db_GetVideo_def)
          show ?thesis by (rule refused [OF o]) (simp_all add: w logCall_def)
        next
          case owner: True
          show ?thesis
          proof (cases "FormFile r ''video''")
            case (Inl e)
            with run u t j g owner have o: "out = respondWithError StatusBadRequest ''Unable to parse video file''"
              and w: "w' = logCall (GetVideoCall videoId) w"
              by (simp_all add: uploadCapped_def db_GetVideo_def)
            show ?thesis by (rule refused [OF o]) (simp_all add: w logCall_def)
          next
            case f: (Inr vf)
            obtain out2 w2 where
              p: "uploadParsed cfg env vm vf (logCall (GetVideoCall videoId) w) = (out2, w2)"
              by (cases "uploadParsed cfg env vm vf (logCall (GetVideoCall videoId) w)")
            with run u t j g owner f have o: "out = out2" "w' = multipart_Close w2"
              by (simp_all add: uploadCapped_def db_GetVideo_def)
            with p g f show ?thesis by (intro parsed) simp_all
          qed
        qed
      qed
    qed
  qed
qed

text \<open>
  When the object store refuses the upload, nothing writes metadata; when the probe output
  does not decode, nothing is stored at all.
\<close>

lemma json_Unmarshal_empty: "json_Unmarshal env [] = Inl (Error ''unexpected end of JSON input'')"
  by (simp add: json_Unmarshal_def)

lemma uploadStaged_store_failure:
  assumes "putObjectErr env = Some e"
      and "uploadStaged cfg env vm vf mt ext tf w = (out, w')"
  shows "db w' = db w
       \<and> filter isUpdateVideo (calls w') = filter isUpdateVideo (calls w)
       \<and> (\<forall>code v. out \<noteq> respondWithJSON code v)
       \<and> (filter isPutObject (calls w') \<noteq> filter isPutObject (calls w)
           \<longrightarrow> out = respondWithError StatusInternalServerError ''Couldn't upload to S3'')"
  using assms
  by (auto simp: uploadStaged_def step_defs split: result_splits)

lemma uploadParsed_store_failure:
  assumes err: "putObjectErr env = Some e"
      and run: "uploadParsed cfg env vm vf w = (out, w')"
  shows "db w' = db w
       \<and> filter isUpdateVideo (calls w') = filter isUpdateVideo (calls w)
       \<and> (\<forall>code v. out \<noteq> respondWithJSON code v)
       \<and> (filter isPutObject (calls w') \<noteq> filter isPutObject (calls w)
           \<longrightarrow> out = respondWithError StatusInternalServerError ''Couldn't upload to S3'')"
  using run
proof (cases rule: uploadParsed_cases)
  case rejected
  then show ?thesis by auto
next
  case (staged tf w2)
  from uploadStaged_store_failure [OF err staged(4)] staged(5) show ?thesis
    by (simp add: os_Remove_def file_Close_def logCall_def)
qed

lemma uploadCapped_store_failure:
  assumes err: "putObjectErr env = Some e"
      and run: "uploadCapped cfg env r w = (out, w')"
  shows "db w' = db w
       \<and> filter isUpdateVideo (calls w') = filter isUpdateVideo (calls w)
       \<and> (\<forall>code v. out \<noteq> respondWithJSON code v)
       \<and> (filter isPutObject (calls w') \<noteq> filter isPutObject (calls w)
           \<longrightarrow> out = respondWithError StatusInternalServerError ''Couldn't upload to S3'')"
  using run
proof (cases rule: uploadCapped_cases)
  case (refused code msg)
  then show ?thesis by auto
next
  case (parsed videoId vm vf w2)
  from uploadParsed_store_failure [OF err parsed(3)] parsed(4) show ?thesis
    by (simp add: multipart_Close_def logCall_def)
qed

lemma uploadStaged_probe_failure:
  assumes "json_Unmarshal env (captured (exec env (ffprobeArgs tf))) = Inl err"
      and "uploadStaged cfg env vm vf mt ext tf w = (out, w')"
  shows "db w' = db w
       \<and> filter isUpdateVideo (calls w') = filter isUpdateVideo (calls w)
       \<and> filter isPutObject (calls w') = filter isPutObject (calls w)
       \<and> (\<forall>code v. out \<noteq> respondWithJSON code v)
       \<and> (filter isRun (calls w') \<noteq> filter isRun (calls w)
           \<longrightarrow> out = respondWithError StatusInternalServerError ''Couldn't get aspect ratio'')"
  using assms
  by (auto simp: uploadStaged_def step_defs split: result_splits)

lemma uploadParsed_probe_failure:
  assumes tmp: "createTemp env = Inr tf"
      and dec: "json_Unmarshal env (captured (exec env (ffprobeArgs tf))) = Inl err"
      and run: "uploadParsed cfg env vm vf w = (out, w')"
  shows "db w' = db w
       \<and> filter isUpdateVideo (calls w') = filter isUpdateVideo (calls w)
       \<and> filter isPutObject (calls w') = filter isPutObject (calls w)
       \<and> (\<forall>code v. out \<noteq> respondWithJSON code v)
       \<and> (filter isRun (calls w') \<noteq> filter isRun (calls w)
           \<longrightarrow> out = respondWithError StatusInternalServerError ''Couldn't get aspect ratio'')"
  using run
proof (cases rule: uploadParsed_cases)
  case rejected
  then show ?thesis by auto
next
  case (staged tf' w2)
  with tmp dec have "json_Unmarshal env (captured (exec env (ffprobeArgs tf'))) = Inl err"
    by simp
  from uploadStaged_probe_failure [OF this staged(4)] staged(5) show ?thesis
    by (simp add: os_Remove_def file_Close_def logCall_def)
qed

lemma uploadCapped_probe_failure:
  assumes tmp: "createTemp env = Inr tf"
      and dec: "json_Unmarshal env (captured (exec env (ffprobeArgs tf))) = Inl err"
      and run: "uploadCapped cfg env r w = (out, w')"
  shows "db w' = db w
       \<and> filter isUpdateVideo (calls w') = filter isUpdateVideo (calls w)
       \<and> filter isPutObject (calls w') = filter isPutObject (calls w)
       \<and> (\<forall>code v. out \<noteq> respondWithJSON code v)
       \<and> (filter isRun (calls w') \<noteq> filter isRun (calls w)
           \<longrightarrow> out = respondWithError StatusInternalServerError ''Couldn't get aspect ratio'')"
  using run
proof (cases rule: uploadCapped_cases)
  case (refused code msg)
  then show ?thesis by auto
next
  case (parsed videoId vm vf w2)
  from uploadParsed_probe_failure [OF tmp dec parsed(3)] parsed(4) show ?thesis
    by (simp add: multipart_Close_def logCall_def)
qed

text \<open>The staged part touches no file but the staged one and creates none.\<close>

lemma uploadStaged_frame:
  assumes "uploadStaged cfg env vm vf mt ext tf w = (out, w')"
  shows "(files w')(tf := None) = (files w)(tf := None)"
    and "(handles w')(tf := None) = (handles w)(tf := None)"
    and "filter isCreateTemp (calls w') = filter isCreateTemp (calls w)"
    and "\<exists>cs. calls w' = calls w @ cs \<and> CreateTempCall name \<notin> set cs"
  using assms
  by (auto simp: uploadStaged_def step_defs split: result_splits)

lemma uploadParsed_release:
  assumes run: "uploadParsed cfg env vm vf w = (out, w')"
  shows "files w' = files w"
    and "CreateTempCall name \<in> set (calls w') \<Longrightarrow> CreateTempCall name \<notin> set (calls w) \<Longrightarrow>
           createTemp env = Inr name \<and> files w name = None \<and> handles w' name = None
           \<and> (\<exists>before. calls w' = before @ [CloseCall name, RemoveCall name])"
proof -
  show "files w' = files w"
    using run
  proof (cases rule: uploadParsed_cases)
    case rejected
    then show ?thesis by simp
  next
    case (staged tf w2)
    from uploadStaged_frame(1) [OF staged(4)]
    have "(files w2)(tf := None) = (files w)(tf := None)"
      by (simp add: logCall_def)
    also have "\<dots> = files w"
      using staged(3) by (simp add: fun_upd_idem)
    finally show ?thesis
      using staged(5) by (simp add: os_Remove_def file_Close_def logCall_def)
  qed
  assume new: "CreateTempCall name \<in> set (calls w')" "CreateTempCall name \<notin> set (calls w)"
  from run show "createTemp env = Inr name \<and> files w name = None \<and> handles w' name = None
           \<and> (\<exists>before. calls w' = before @ [CloseCall name, RemoveCall name])"
  proof (cases rule: uploadParsed_cases)
    case rejected
    with new show ?thesis by simp
  next
    case (staged tf w2)
    from uploadStaged_frame(4) [OF staged(4), of name] obtain cs where
      cs: "calls w2 = calls w @ [CreateTempCall tf] @ cs" "CreateTempCall name \<notin> set cs"
      by (auto simp: logCall_def)
    with new staged(5) have name: "name = tf"
      by (auto simp: os_Remove_def file_Close_def logCall_def)
    have "calls w' = (calls w @ [CreateTempCall tf] @ cs) @ [CloseCall tf, RemoveCall tf]"
      using staged(5) cs(1) by (simp add: os_Remove_def file_Close_def logCall_def)
    moreover have "handles w' tf = None"
      using staged(5) by (simp add: os_Remove_def file_Close_def logCall_def)
    ultimately show ?thesis
      using staged(2,3) name by blast
  qed
qed

text \<open>The key of what is stored, given what the probe output decodes to.\<close>

lemma classifyStreams_no_video:
  "filter (\<lambda>s. CodecType s = ''video'') (Streams data) = [] \<Longrightarrow> classifyStreams data = ''16:9''"
  by (simp add: classifyStreams_def scanStreams_last_video aspectRatioOf_examples)

lemma uploadStaged_key:
  assumes "uploadStaged cfg env vm vf mt ext tf w = (out, w')"
      and "json_Unmarshal env (captured (exec env (ffprobeArgs tf))) = Inr data"
  shows "out \<noteq> respondWithError StatusInternalServerError ''Couldn't get aspect ratio''"
    and "filter isPutObject (calls w') = filter isPutObject (calls w)
         \<or> (\<exists>body. filter isPutObject (calls w') = filter isPutObject (calls w) @
               [PutObjectCall (s3Bucket cfg)
                  (directoryOf (classifyStreams data) @ ''/''
                     @ EncodeToString (map (cryptoRand env) [0..<32]) @ ''.'' @ ext) mt body])"
  using assms
  by (auto simp: uploadStaged_def step_defs split: result_splits)

lemma uploadParsed_key:
  assumes run: "uploadParsed cfg env vm vf w = (out, w')"
      and tmp: "createTemp env = Inr tf"
      and dec: "json_Unmarshal env (captured (exec env (ffprobeArgs tf))) = Inr data"
  shows "out \<noteq> respondWithError StatusInternalServerError ''Couldn't get aspect ratio''"
    and "filter isPutObject (calls w') = filter isPutObject (calls w)
         \<or> (\<exists>body. filter isPutObject (calls w') = filter isPutObject (calls w) @
               [PutObjectCall (s3Bucket cfg)
                  (directoryOf (classifyStreams data) @ ''/''
                     @ EncodeToString (map (cryptoRand env) [0..<32]) @ ''.mp4'') ''video/mp4'' body])"
proof -
  show "out \<noteq> respondWithError StatusInternalServerError ''Couldn't get aspect ratio''"
    using run
  proof (cases rule: uploadParsed_cases)
    case rejected
    then show ?thesis by (auto simp: indexPanic_def)
  next
    case (staged tf' w2)
    with tmp dec uploadStaged_key(1) [OF staged(4)] show ?thesis by simp
  qed
  show "filter isPutObject (calls w') = filter isPutObject (calls w)
         \<or> (\<exists>body. filter isPutObject (calls w') = filter isPutObject (calls w) @
               [PutObjectCall (s3Bucket cfg)
                  (directoryOf (classifyStreams data) @ ''/''
                     @ EncodeToString (map (cryptoRand env) [0..<32]) @ ''.mp4'') ''video/mp4'' body])"
    using run
  proof (cases rule: uploadParsed_cases)
    case rejected
    then show ?thesis by simp
  next
    case (staged tf' w2)
    with tmp dec have "json_Unmarshal env (captured (exec env (ffprobeArgs tf'))) = Inr data"
      by simp
    from uploadStaged_key(2) [OF staged(4) this] staged(5) show ?thesis
      by (auto simp: os_Remove_def file_Close_def logCall_def)
  qed
qed

lemma strings_Split_not_Nil: "strings_Split s sep \<noteq> []"
  by (induction s) (auto split: list.splits)

lemma strings_Split_sep: "sep \<in> set s \<Longrightarrow> 2 \<le> length (strings_Split s sep)"
proof (induction s)
  case Nil
  then show ?case by simp
next
  case (Cons c s)
  then show ?case
    using strings_Split_not_Nil [of s sep]
    by (cases "strings_Split s sep") (auto simp: Suc_le_eq)
qed

text \<open>Where the media type has a slash, every type but \<open>video/mp4\<close> is answered with 400.\<close>

lemma uploadParsed_rejects_other_types:
  assumes "ParseMediaType env (ContentType videoFile) = Inr mediaType"
      and "CHR ''/'' \<in> set mediaType"
      and "mediaType \<noteq> ''video/mp4''"
  shows "uploadParsed cfg env videoMetadata videoFile w =
           (respondWithError StatusBadRequest ''Invalid file upload'', w)"
proof -
  have "2 \<le> length (strings_Split mediaType CHR ''/'')"
    using assms(2) by (rule strings_Split_sep)
  then obtain ext where "go_index (strings_Split mediaType CHR ''/'') 1 = Some ext"
    by (simp add: go_index_def)
  then show ?thesis
    using assms(1,3) by (simp add: uploadParsed_def)
qed

text \<open>A form that cannot be read stops the handler before anything is staged or stored.\<close>

lemma uploadCapped_form_failure:
  assumes "FormFile r ''video'' = Inl e"
  shows "(\<exists>code msg. fst (uploadCapped cfg env r w) = respondWithError code msg)
       \<and> filter isPutObject (calls (snd (uploadCapped cfg env r w))) = filter isPutObject (calls w)
       \<and> filter isCreateTemp (calls (snd (uploadCapped cfg env r w))) = filter isCreateTemp (calls w)
       \<and> filter isUpdateVideo (calls (snd (uploadCapped cfg env r w))) = filter isUpdateVideo (calls w)
       \<and> db (snd (uploadCapped cfg env r w)) = db w
       \<and> files (snd (uploadCapped cfg env r w)) = files w"
  using assms
  by (simp add: uploadCapped_def db_GetVideo_def logCall_def split: result_splits)

text \<open>
  The token determines the bytes it was made from: decoding undoes encoding, so two
  different byte strings never get the same token, and 32 bytes give \<open>2^256\<close> tokens.
\<close>

lemma takeWhile_nth_distinct:
  "distinct xs \<Longrightarrow> i < length xs \<Longrightarrow> length (takeWhile (\<lambda>x. x \<noteq> xs ! i) xs) = i"
proof (induction xs arbitrary: i)
  case Nil
  then show ?case by simp
next
  case (Cons x xs)
  then show ?case
    by (cases i) auto
qed

lemma sextets:
  fixes v :: nat
  assumes "v < 16777216"
  shows "v div 262144 mod 64 * 262144 + v div 4096 mod 64 * 4096 + v div 64 mod 64 * 64 + v mod 64 = v"
proof -
  define x where "x = v div 64"
  define y where "y = x div 64"
  define z where "z = y div 64"
  define vm where "vm = v mod 64"
  define xm where "xm = x mod 64"
  define ym where "ym = y mod 64"
  have v: "v = x * 64 + vm" by (simp add: x_def vm_def)
  have x: "x = y * 64 + xm" by (simp add: y_def xm_def)
  have y: "y = z * 64 + ym" by (simp add: z_def ym_def)
  have "z < 64" using assms v x y by linarith
  then have zm: "z mod 64 = z" by simp
  have d1: "v div 4096 = y" by (simp add: y_def x_def div_mult2_eq [symmetric])
  have d2: "v div 262144 = z" by (simp add: z_def y_def x_def div_mult2_eq [symmetric])
  have "z * 262144 + ym * 4096 + xm * 64 + vm = v"
    using v x y by linarith
  then show ?thesis
    by (simp add: d1 d2 zm x_def [symmetric] xm_def [symmetric] ym_def [symmetric] vm_def [symmetric])
qed

lemma octets:
  fixes a b c :: nat
  assumes "b < 256" "c < 256"
  shows "(a * 65536 + b * 256 + c) div 65536 = a"
    and "(a * 65536 + b * 256 + c) div 256 mod 256 = b"
    and "(a * 65536 + b * 256 + c) mod 256 = c"
proof -
  have e: "a * 65536 + b * 256 + c = (a * 256 + b) * 256 + c"
    by simp
  have low: "(m * 256 + c) mod 256 = c" "(m * 256 + c) div 256 = m" for m
    using assms(2) by simp_all
  have mid: "(a * 256 + b) mod 256 = b" "(a * 256 + b) div 256 = a"
    using assms(1) by simp_all
  have twice: "w div 65536 = w div 256 div 256" for w :: nat
    by (simp add: div_mult2_eq [symmetric])
  show "(a * 65536 + b * 256 + c) mod 256 = c"
    by (simp only: e low)
  show "(a * 65536 + b * 256 + c) div 256 mod 256 = b"
    by (simp only: e low mid)
  show "(a * 65536 + b * 256 + c) div 65536 = a"
    by (simp only: twice e low mid)
qed

lemma distinct_encodeURL: "distinct encodeURL"
  by (simp add: encodeURL_def)

lemma decodeChar_encodeChar: "decodeChar (encodeChar i) = i mod 64"
  unfolding decodeChar_def encodeChar_def
  by (rule takeWhile_nth_distinct [OF distinct_encodeURL]) (simp add: length_encodeURL)

lemma unat_byte: "unat (a :: 8 word) < 256"
  using unsigned_less [of a] by simp

lemma byte_of_unat: "(of_nat (unat a) :: 8 word) = a"
  by simp

lemma decode_group:
  fixes a b c :: "8 word"
  defines "v \<equiv> unat a * 65536 + unat b * 256 + unat c"
  shows "decodeChar (encodeChar (v div 262144)) * 262144 + decodeChar (encodeChar (v div 4096)) * 4096
           + decodeChar (encodeChar (v div 64)) * 64 + decodeChar (encodeChar v) = v"
    and "of_nat (v div 65536) = a" and "of_nat (v div 256 mod 256) = b" and "of_nat (v mod 256) = c"
proof -
  have "v < 16777216"
    using unat_byte [of a] unat_byte [of b] unat_byte [of c] by (simp add: v_def)
  then show "decodeChar (encodeChar (v div 262144)) * 262144 + decodeChar (encodeChar (v div 4096)) * 4096
           + decodeChar (encodeChar (v div 64)) * 64 + decodeChar (encodeChar v) = v"
    by (simp only: decodeChar_encodeChar sextets)
  show "of_nat (v div 65536) = a" "of_nat (v div 256 mod 256) = b" "of_nat (v mod 256) = c"
    unfolding v_def by (simp_all only: octets [OF unat_byte unat_byte] byte_of_unat)
qed

lemma DecodeString_EncodeToString: "DecodeString (EncodeToString src) = src"
proof (induction src rule: EncodeToString.induct)
  case (1 a b c src)
  then show ?case
    by (simp only: EncodeToString.simps DecodeString.simps Let_def decode_group)
next
  case (2 a b)
  have z: "(unat a * 65536 + unat b * 256 + unat (0 :: 8 word)) = unat a * 65536 + unat b * 256"
    by simp
  have m: "decodeChar (encodeChar (unat a * 65536 + unat b * 256)) = 0"
    by (simp add: decodeChar_encodeChar)
  from decode_group(1) [of a b 0] m
  have "decodeChar (encodeChar ((unat a * 65536 + unat b * 256) div 262144)) * 262144
        + decodeChar (encodeChar ((unat a * 65536 + unat b * 256) div 4096)) * 4096
        + decodeChar (encodeChar ((unat a * 65536 + unat b * 256) div 64)) * 64
        = unat a * 65536 + unat b * 256"
    by (simp only: z add_0_right)
  then show ?case
    using decode_group(2,3) [of a b 0]
    by (simp only: EncodeToString.simps DecodeString.simps Let_def z)
next
  case (3 a)
  have z: "(unat a * 65536 + unat (0 :: 8 word) * 256 + unat (0 :: 8 word)) = unat a * 65536"
    by simp
  have m: "decodeChar (encodeChar (unat a * 65536)) = 0"
          "decodeChar (encodeChar (unat a * 65536 div 64)) = 0"
    by (simp_all add: decodeChar_encodeChar)
  from decode_group(1) [of a 0 0] m
  have "decodeChar (encodeChar (unat a * 65536 div 262144)) * 262144
        + decodeChar (encodeChar (unat a * 65536 div 4096)) * 4096 = unat a * 65536"
    by (simp only: z add_0_right mult_zero_left)
  then show ?case
    using decode_group(2) [of a 0 0]
    by (simp only: EncodeToString.simps DecodeString.simps Let_def z)
next
  case 4
  show ?case by simp
qed

lemma EncodeToString_inj: "EncodeToString a = EncodeToString b \<Longrightarrow> a = b"
  by (metis DecodeString_EncodeToString)

lemma EncodeToString_vectors:
  "EncodeToString [102, 111, 111, 98, 97, 114] = ''Zm9vYmFy''"
  "EncodeToString [102, 111] = ''Zm8''"
  "EncodeToString [102] = ''Zg''"
  "EncodeToString [251, 255] = ''-_8''"
  by (simp_all add: encodeChar_def encodeURL_def)

lemma card_byte_lists: "card {bs :: 8 word list. length bs = n} = 256 ^ n"
proof -
  have "card {bs :: 8 word list. set bs \<subseteq> UNIV \<and> length bs = n} = card (UNIV :: 8 word set) ^ n"
    by (rule card_lists_length_eq) simp
  then show ?thesis
    by (simp add: card_word)
qed

lemma card_tokens: "card (EncodeToString ` {bs. length bs = 32}) = 2 ^ 256"
proof -
  have "inj_on EncodeToString {bs. length bs = 32}"
    by (rule inj_onI) (rule EncodeToString_inj)
  then have "card (EncodeToString ` {bs. length bs = 32}) = card {bs :: 8 word list. length bs = 32}"
    by (rule card_image)
  then show ?thesis
    by (simp add: card_byte_lists)
qed

text \<open>
  When every step succeeds, the response, the metadata store and the calls are these; and a
  response with a record means that every step has succeeded.
\<close>

lemma uploadStaged_ok:
  assumes "copyErr env = None" "randErr env = None"
      and "json_Unmarshal env (captured (exec env (ffprobeArgs tf))) = Inr data"
      and "putObjectErr env = None" "updateVideoErr env = None"
      and "files w tf = Some []" "handles w tf = Some 0"
  shows "fst (uploadStaged cfg env vm vf mt ext tf w) =
           respondWithJSON StatusOK (vm\<lparr>VideoURL := Some (''https://'' @ s3Bucket cfg @ ''.s3.''
             @ s3Region cfg @ ''.amazonaws.com/'' @ directoryOf (classifyStreams data) @ ''/''
             @ EncodeToString (map (cryptoRand env) [0..<32]) @ ''.'' @ ext)\<rparr>)"
    and "db (snd (uploadStaged cfg env vm vf mt ext tf w)) =
           (db w)(ID vm \<mapsto> vm\<lparr>VideoURL := Some (''https://'' @ s3Bucket cfg @ ''.s3.''
             @ s3Region cfg @ ''.amazonaws.com/'' @ directoryOf (classifyStreams data) @ ''/''
             @ EncodeToString (map (cryptoRand env) [0..<32]) @ ''.'' @ ext)\<rparr>)"
    and "calls (snd (uploadStaged cfg env vm vf mt ext tf w)) = calls w @
           [RunCall (ffprobeArgs tf),
            PutObjectCall (s3Bucket cfg)
              (directoryOf (classifyStreams data) @ ''/''
                 @ EncodeToString (map (cryptoRand env) [0..<32]) @ ''.'' @ ext) mt (Data vf),
            UpdateVideoCall (vm\<lparr>VideoURL := Some (''https://'' @ s3Bucket cfg @ ''.s3.''
             @ s3Region cfg @ ''.amazonaws.com/'' @ directoryOf (classifyStreams data) @ ''/''
             @ EncodeToString (map (cryptoRand env) [0..<32]) @ ''.'' @ ext)\<rparr>)]"
  using assms
  by (simp_all add: uploadStaged_def step_defs file_Read_def)

lemma uploadParsed_ok:
  assumes mt: "ParseMediaType env (ContentType vf) = Inr ''video/mp4''"
      and tmp: "createTemp env = Inr tf" "files w tf = None"
      and ok: "copyErr env = None" "randErr env = None"
        "json_Unmarshal env (captured (exec env (ffprobeArgs tf))) = Inr data"
        "putObjectErr env = None" "updateVideoErr env = None"
  shows "fst (uploadParsed cfg env vm vf w) =
           respondWithJSON StatusOK (vm\<lparr>VideoURL := Some (''https://'' @ s3Bucket cfg @ ''.s3.''
             @ s3Region cfg @ ''.amazonaws.com/'' @ directoryOf (classifyStreams data) @ ''/''
             @ EncodeToString (map (cryptoRand env) [0..<32]) @ ''.mp4'')\<rparr>)"
    and "db (snd (uploadParsed cfg env vm vf w)) =
           (db w)(ID vm \<mapsto> vm\<lparr>VideoURL := Some (''https://'' @ s3Bucket cfg @ ''.s3.''
             @ s3Region cfg @ ''.amazonaws.com/'' @ directoryOf (classifyStreams data) @ ''/''
             @ EncodeToString (map (cryptoRand env) [0..<32]) @ ''.mp4'')\<rparr>)"
    and "calls (snd (uploadParsed cfg env vm vf w)) = calls w @
           [CreateTempCall tf,
            RunCall (ffprobeArgs tf),
            PutObjectCall (s3Bucket cfg)
              (directoryOf (classifyStreams data) @ ''/''
                 @ EncodeToString (map (cryptoRand env) [0..<32]) @ ''.mp4'') ''video/mp4'' (Data vf),
            UpdateVideoCall (vm\<lparr>VideoURL := Some (''https://'' @ s3Bucket cfg @ ''.s3.''
             @ s3Region cfg @ ''.amazonaws.com/'' @ directoryOf (classifyStreams data) @ ''/''
             @ EncodeToString (map (cryptoRand env) [0..<32]) @ ''.mp4'')\<rparr>),
            CloseCall tf, RemoveCall tf]"
proof -
  let ?w1 = "logCall (CreateTempCall tf)
               (w\<lparr>files := (files w)(tf \<mapsto> []), handles := (handles w)(tf \<mapsto> 0)\<rparr>)"
  have ct: "os_CreateTemp env w = (Inr tf, ?w1)"
    using tmp by (simp add: os_CreateTemp_def)
  have fresh: "files ?w1 tf = Some []" "handles ?w1 tf = Some 0"
    by (simp_all add: logCall_def)
  note st = uploadStaged_ok [OF ok fresh, of cfg vm vf "''video/mp4''" "''mp4''"]
  have p: "uploadParsed cfg env vm vf w =
      (fst (uploadStaged cfg env vm vf ''video/mp4'' ''mp4'' tf ?w1),
       os_Remove tf (file_Close tf (snd (uploadStaged cfg env vm vf ''video/mp4'' ''mp4'' tf ?w1))))"
    using mt ct by (simp add: uploadParsed_def go_index_def split: prod.splits)
  show "fst (uploadParsed cfg env vm vf w) =
           respondWithJSON StatusOK (vm\<lparr>VideoURL := Some (''https://'' @ s3Bucket cfg @ ''.s3.''
             @ s3Region cfg @ ''.amazonaws.com/'' @ directoryOf (classifyStreams data) @ ''/''
             @ EncodeToString (map (cryptoRand env) [0..<32]) @ ''.mp4'')\<rparr>)"
    using st(1) by (simp add: p)
  show "db (snd (uploadParsed cfg env vm vf w)) =
           (db w)(ID vm \<mapsto> vm\<lparr>VideoURL := Some (''https://'' @ s3Bucket cfg @ ''.s3.''
             @ s3Region cfg @ ''.amazonaws.com/'' @ directoryOf (classifyStreams data) @ ''/''
             @ EncodeToString (map (cryptoRand env) [0..<32]) @ ''.mp4'')\<rparr>)"
    using st(2) by (simp add: p os_Remove_def file_Close_def logCall_def)
  show "calls (snd (uploadParsed cfg env vm vf w)) = calls w @
           [CreateTempCall tf,
            RunCall (ffprobeArgs tf),
            PutObjectCall (s3Bucket cfg)
              (directoryOf (classifyStreams data) @ ''/''
                 @ EncodeToString (map (cryptoRand env) [0..<32]) @ ''.mp4'') ''video/mp4'' (Data vf),
            UpdateVideoCall (vm\<lparr>VideoURL := Some (''https://'' @ s3Bucket cfg @ ''.s3.''
             @ s3Region cfg @ ''.amazonaws.com/'' @ directoryOf (classifyStreams data) @ ''/''
             @ EncodeToString (map (cryptoRand env) [0..<32]) @ ''.mp4'')\<rparr>),
            CloseCall tf, RemoveCall tf]"
    using st(3) by (simp add: p os_Remove_def file_Close_def logCall_def)
qed

lemma uploadCapped_ok:
  assumes auth: "uuid_Parse env (PathValue r ''videoID'') = Inr videoId"
        "GetBearerToken env (Header r) = Inr token"
        "ValidateJWT env token (jwtSecret cfg) = Inr (UserID vm)"
        "db w videoId = Some vm"
        "FormFile r ''video'' = Inr vf"
      and mt: "ParseMediaType env (ContentType vf) = Inr ''video/mp4''"
      and tmp: "createTemp env = Inr tf" "files w tf = None"
      and ok: "copyErr env = None" "randErr env = None"
        "json_Unmarshal env (captured (exec env (ffprobeArgs tf))) = Inr data"
        "putObjectErr env = None" "updateVideoErr env = None"
  shows "fst (uploadCapped cfg env r w) =
           respondWithJSON StatusOK (vm\<lparr>VideoURL := Some (''https://'' @ s3Bucket cfg @ ''.s3.''
             @ s3Region cfg @ ''.amazonaws.com/'' @ directoryOf (classifyStreams data) @ ''/''
             @ EncodeToString (map (cryptoRand env) [0..<32]) @ ''.mp4'')\<rparr>)"
    and "db (snd (uploadCapped cfg env r w)) =
           (db w)(ID vm \<mapsto> vm\<lparr>VideoURL := Some (''https://'' @ s3Bucket cfg @ ''.s3.''
             @ s3Region cfg @ ''.amazonaws.com/'' @ directoryOf (classifyStreams data) @ ''/''
             @ EncodeToString (map (cryptoRand env) [0..<32]) @ ''.mp4'')\<rparr>)"
    and "calls (snd (uploadCapped cfg env r w)) = calls w @
           [GetVideoCall videoId,
            CreateTempCall tf,
            RunCall (ffprobeArgs tf),
            PutObjectCall (s3Bucket cfg)
              (directoryOf (classifyStreams data) @ ''/''
                 @ EncodeToString (map (cryptoRand env) [0..<32]) @ ''.mp4'') ''video/mp4'' (Data vf),
            UpdateVideoCall (vm\<lparr>VideoURL := Some (''https://'' @ s3Bucket cfg @ ''.s3.''
             @ s3Region cfg @ ''.amazonaws.com/'' @ directoryOf (classifyStreams data) @ ''/''
             @ EncodeToString (map (cryptoRand env) [0..<32]) @ ''.mp4'')\<rparr>),
            CloseCall tf, RemoveCall tf, MultipartCloseCall]"
proof -
  let ?w1 = "logCall (GetVideoCall videoId) w"
  have fresh: "files ?w1 tf = None"
    using tmp(2) by (simp add: logCall_def)
  note p = uploadParsed_ok [OF mt tmp(1) fresh ok, of cfg vm]
  have c: "uploadCapped cfg env r w =
      (fst (uploadParsed cfg env vm vf ?w1), multipart_Close (snd (uploadParsed cfg env vm vf ?w1)))"
    using auth by (simp add: uploadCapped_def db_GetVideo_def split: prod.splits)
  show "fst (uploadCapped cfg env r w) =
           respondWithJSON StatusOK (vm\<lparr>VideoURL := Some (''https://'' @ s3Bucket cfg @ ''.s3.''
             @ s3Region cfg @ ''.amazonaws.com/'' @ directoryOf (classifyStreams data) @ ''/''
             @ EncodeToString (map (cryptoRand env) [0..<32]) @ ''.mp4'')\<rparr>)"
    using p(1) by (simp add: c)
  show "db (snd (uploadCapped cfg env r w)) =
           (db w)(ID vm \<mapsto> vm\<lparr>VideoURL := Some (''https://'' @ s3Bucket cfg @ ''.s3.''
             @ s3Region cfg @ ''.amazonaws.com/'' @ directoryOf (classifyStreams data) @ ''/''
             @ EncodeToString (map (cryptoRand env) [0..<32]) @ ''.mp4'')\<rparr>)"
    using p(2) by (simp add: c multipart_Close_def logCall_def)
  show "calls (snd (uploadCapped cfg env r w)) = calls w @
           [GetVideoCall videoId,
            CreateTempCall tf,
            RunCall (ffprobeArgs tf),
            PutObjectCall (s3Bucket cfg)
              (directoryOf (classifyStreams data) @ ''/''
                 @ EncodeToString (map (cryptoRand env) [0..<32]) @ ''.mp4'') ''video/mp4'' (Data vf),
            UpdateVideoCall (vm\<lparr>VideoURL := Some (''https://'' @ s3Bucket cfg @ ''.s3.''
             @ s3Region cfg @ ''.amazonaws.com/'' @ directoryOf (classifyStreams data) @ ''/''
             @ EncodeToString (map (cryptoRand env) [0..<32]) @ ''.mp4'')\<rparr>),
            CloseCall tf, RemoveCall tf, MultipartCloseCall]"
    using p(3) by (simp add: c multipart_Close_def logCall_def)
qed

lemma uploadStaged_steps:
  assumes "uploadStaged cfg env vm vf mt ext tf w = (respondWithJSON code video, w')"
  shows "copyErr env = None \<and> randErr env = None \<and> putObjectErr env = None
    \<and> updateVideoErr env = None"
  using assms
  by (auto simp: uploadStaged_def step_defs split: result_splits)

lemma uploadCapped_steps:
  assumes run: "uploadCapped cfg env r w = (respondWithJSON code video, w')"
  shows "\<exists>tf. createTemp env = Inr tf \<and> files w tf = None \<and> copyErr env = None
    \<and> randErr env = None \<and> putObjectErr env = None \<and> updateVideoErr env = None"
  using run
proof (cases rule: uploadCapped_cases)
  case (refused code msg)
  then show ?thesis by simp
next
  case (parsed videoId vm vf w2)
  from parsed(3) show ?thesis
  proof (cases rule: uploadParsed_cases)
    case rejected
    then show ?thesis by auto
  next
    case (staged tf w3)
    from staged(3) have "files w tf = None"
      by (simp add: logCall_def)
    with staged(2) uploadStaged_steps [OF staged(4)] show ?thesis
      by blast
  qed
qed

text \<open>
  A part of the form lies within the form: the form extends beyond the bytes of each of
  its parts, and the body is at least as long as the form.
\<close>

lemma formExtent_part:
  assumes "(key, part) \<in> set parts"
  shows "length (Data part) < formExtent (MultipartBody boundary parts epilogue)"
proof -
  have "length (Data part) < length (encodePart boundary (key, part))"
    by (simp add: encodePart_def)
  also have "\<dots> \<le> sum_list (map length (map (encodePart boundary) parts))"
    using assms by (induction parts) auto
  also have "\<dots> \<le> formExtent (MultipartBody boundary parts epilogue)"
    by (simp add: formExtent_def length_concat)
  finally show ?thesis .
qed

lemma formExtent_le_bodySize: "formExtent body \<le> bodySize body"
  by (cases body) (simp_all add: formExtent_def bodySize_def)

section \<open>The claims\<close>

text \<open>
  C1. The orientation computed by \<open>getVideoAspectRatio\<close> is a function of the width and
  height of the last video-typed stream of the decoded probe output (a later video stream
  overwrites an earlier one; with no video stream both stay zero), by the rule: if
  \<open>width == 16*height/9\<close> in Go's integer arithmetic the result is \<open>16:9\<close> (landscape),
  else if \<open>height == 16*width/9\<close> it is \<open>9:16\<close> (portrait), else \<open>other\<close>.
  1920 by 1080 is landscape, 1080 by 1920 is portrait and 1000 by 1000 is other.
\<close>

theorem C1_orientation_classification:
  "classifyStreams data =
     (case filter (\<lambda>s. CodecType s = ''video'') (Streams data) of
        [] \<Rightarrow> aspectRatioOf 0 0
      | v # vs \<Rightarrow> aspectRatioOf (Width (last (v # vs))) (Height (last (v # vs))))
   \<and> fst (getVideoAspectRatio env filePath w) =
       (case json_Unmarshal env (captured (exec env (ffprobeArgs filePath))) of
          Inl err \<Rightarrow> Inl err
        | Inr data \<Rightarrow> Inr (classifyStreams data))
   \<and> aspectRatioOf width height =
       (if width = word_of_int (sint (16 * height) sdiv 9) then ''16:9''
        else if height = word_of_int (sint (16 * width) sdiv 9) then ''9:16''
        else ''other'')
   \<and> aspectRatioOf 1920 1080 = ''16:9'' \<and> directoryOf (aspectRatioOf 1920 1080) = ''landscape''
   \<and> aspectRatioOf 1080 1920 = ''9:16'' \<and> directoryOf (aspectRatioOf 1080 1920) = ''portrait''
   \<and> aspectRatioOf 1000 1000 = ''other'' \<and> directoryOf (aspectRatioOf 1000 1000) = ''other''"
proof -
  have a: "classifyStreams data =
     (case filter (\<lambda>s. CodecType s = ''video'') (Streams data) of
        [] \<Rightarrow> aspectRatioOf 0 0
      | v # vs \<Rightarrow> aspectRatioOf (Width (last (v # vs))) (Height (last (v # vs))))"
    unfolding classifyStreams_def scanStreams_last_video by (simp split: list.splits)
  have b: "aspectRatioOf width height =
       (if width = word_of_int (sint (16 * height) sdiv 9) then ''16:9''
        else if height = word_of_int (sint (16 * width) sdiv 9) then ''9:16''
        else ''other'')"
    by (simp add: aspectRatioOf_def go_quo_def go_mul_def)
  show ?thesis
    using a b getVideoAspectRatio_result [of env filePath w]
    by (simp add: aspectRatioOf_examples directoryOf_def)
qed

text \<open>
  C2. When the authenticated caller is not the owner recorded on the video's metadata
  record, the handler answers 401 and stops there: the only call it has issued is the
  lookup of the record, so no temporary file is created, nothing is put into the object
  store, nothing is written to the metadata store, and the record is unchanged.
\<close>

theorem C2_non_owner_halts:
  assumes "uuid_Parse env (PathValue r ''videoID'') = Inr videoId"
      and "GetBearerToken env (Header r) = Inr token"
      and "ValidateJWT env token (jwtSecret cfg) = Inr userId"
      and "db w videoId = Some videoMetadata"
      and "UserID videoMetadata \<noteq> userId"
    shows "handlerUploadVideo cfg env r w =
             (respondWithError StatusUnauthorized ''User not authorized'',
              w\<lparr>calls := calls w @ [GetVideoCall videoId]\<rparr>)"
  using assms
  by (simp add: handlerUploadVideo_def uploadCapped_def MaxBytesReader_def db_GetVideo_def logCall_def)

theorem C2_non_owner_halts_witness:
  "uuid_Parse exampleEnv
     (PathValue (exampleRequest ''bob-token'' (exampleBody ''video/mp4'')) ''videoID'') = Inr ''video-1''
   \<and> GetBearerToken exampleEnv (Header (exampleRequest ''bob-token'' (exampleBody ''video/mp4'')))
       = Inr ''bob-token''
   \<and> ValidateJWT exampleEnv ''bob-token'' (jwtSecret exampleConfig) = Inr ''bob''
   \<and> db exampleWorld ''video-1'' = Some exampleVideo
   \<and> UserID exampleVideo \<noteq> ''bob''
   \<and> handlerUploadVideo exampleConfig exampleEnv
         (exampleRequest ''bob-token'' (exampleBody ''video/mp4'')) exampleWorld =
       (respondWithError StatusUnauthorized ''User not authorized'',
        exampleWorld\<lparr>calls := calls exampleWorld @ [GetVideoCall ''video-1'']\<rparr>)"
proof -
  have h1: "uuid_Parse exampleEnv
     (PathValue (exampleRequest ''bob-token'' (exampleBody ''video/mp4'')) ''videoID'') = Inr ''video-1''"
    by (simp add: example_defs)
  have h2: "GetBearerToken exampleEnv (Header (exampleRequest ''bob-token'' (exampleBody ''video/mp4'')))
       = Inr ''bob-token''"
    by (simp add: example_defs)
  have h3: "ValidateJWT exampleEnv ''bob-token'' (jwtSecret exampleConfig) = Inr ''bob''"
    by (simp add: example_defs)
  have h4: "db exampleWorld ''video-1'' = Some exampleVideo"
    by (simp add: example_defs)
  have h5: "UserID exampleVideo \<noteq> ''bob''"
    by (simp add: example_defs)
  show ?thesis
    using h1 h2 h3 h4 h5 C2_non_owner_halts [OF h1 h2 h3 h4 h5] by simp
qed

text \<open>
  C3 (as the code has it). The first statement of the handler caps the body at exactly
  \<open>1<<30\<close> bytes, before anything is read from it: reading succeeds up to that many
  bytes and fails beyond. Every request whose multipart form (the body up to and including
  its closing boundary) exceeds that ceiling fails, at form parsing, with an error response
  and without a call of \<open>PutObject\<close>. A form with a part of \<open>1<<30\<close> bytes or more is
  such a form.
\<close>

theorem C3_body_cap:
  "handlerUploadVideo cfg env r w = uploadCapped cfg env (MaxBytesReader (2 ^ 30) r) w
   \<and> bodyLimit (MaxBytesReader (2 ^ 30) r) = Some 1073741824
   \<and> (readBody (MaxBytesReader (2 ^ 30) r) n = None) = (n \<le> 1073741824)
   \<and> (2 ^ 30 < formExtent (Body r) \<longrightarrow>
        FormFile (MaxBytesReader (2 ^ 30) r) ''video'' = Inl (MaxBytesError (2 ^ 30))
      \<and> (\<exists>code msg. fst (handlerUploadVideo cfg env r w) = respondWithError code msg)
      \<and> filter isPutObject (calls (snd (handlerUploadVideo cfg env r w))) =
          filter isPutObject (calls w))
   \<and> (Body r = MultipartBody boundary parts epilogue \<and> (key, part) \<in> set parts
        \<and> 2 ^ 30 \<le> length (Data part) \<longrightarrow>
        2 ^ 30 < formExtent (Body r))
   \<and> (formExtent (Body r) \<le> 2 ^ 30 \<longrightarrow>
        handlerUploadVideo cfg env r w = uploadCapped cfg env (r\<lparr>bodyLimit := None\<rparr>) w)"
proof (intro conjI impI)
  show h: "handlerUploadVideo cfg env r w = uploadCapped cfg env (MaxBytesReader (2 ^ 30) r) w"
    by (simp add: handlerUploadVideo_def)
  show "bodyLimit (MaxBytesReader (2 ^ 30) r) = Some 1073741824"
    by (simp add: MaxBytesReader_def)
  show "(readBody (MaxBytesReader (2 ^ 30) r) n = None) = (n \<le> 1073741824)"
    by (simp add: readBody_def MaxBytesReader_def)
  {
    assume big: "2 ^ 30 < formExtent (Body r)"
    then obtain boundary' parts' epilogue' where "Body r = MultipartBody boundary' parts' epilogue'"
      by (cases "Body r") (simp_all add: formExtent_def)
    with big show ff: "FormFile (MaxBytesReader (2 ^ 30) r) ''video'' = Inl (MaxBytesError (2 ^ 30))"
      by (simp add: FormFile_def readBody_def MaxBytesReader_def)
    note facts = uploadCapped_form_failure [OF ff, of cfg env w, folded h]
    from facts show "\<exists>code msg. fst (handlerUploadVideo cfg env r w) = respondWithError code msg"
      by blast
    from facts show "filter isPutObject (calls (snd (handlerUploadVideo cfg env r w))) =
        filter isPutObject (calls w)"
      by blast
  }
  {
    assume a: "Body r = MultipartBody boundary parts epilogue \<and> (key, part) \<in> set parts
        \<and> 2 ^ 30 \<le> length (Data part)"
    then show "2 ^ 30 < formExtent (Body r)"
      using formExtent_part [of key part parts boundary epilogue] by simp
  }
  {
    assume small: "formExtent (Body r) \<le> 2 ^ 30"
    then have "FormFile (MaxBytesReader (2 ^ 30) r) ''video'' = FormFile (r\<lparr>bodyLimit := None\<rparr>) ''video''"
      by (simp add: FormFile_def readBody_def MaxBytesReader_def split: sum.splits)
    then show "handlerUploadVideo cfg env r w = uploadCapped cfg env (r\<lparr>bodyLimit := None\<rparr>) w"
      by (simp add: handlerUploadVideo_def uploadCapped_def MaxBytesReader_def
               cong: sum.case_cong prod.case_cong if_cong)
  }
qed

theorem C3_body_cap_witness:
  "Body (exampleRequest ''alice-token'' exampleOverlongBody) =
     MultipartBody ''tubely-boundary''
       [(''video'', \<lparr>ContentType = ''video/mp4'', Data = replicate (2 ^ 30) CHR ''0''\<rparr>)] []
   \<and> 2 ^ 30 \<le> length (Data \<lparr>ContentType = ''video/mp4'', Data = replicate (2 ^ 30) CHR ''0''\<rparr>)
   \<and> 2 ^ 30 < formExtent (Body (exampleRequest ''alice-token'' exampleOverlongBody))
   \<and> FormFile (MaxBytesReader (2 ^ 30) (exampleRequest ''alice-token'' exampleOverlongBody)) ''video'' =
       Inl (MaxBytesError (2 ^ 30))
   \<and> handlerUploadVideo exampleConfig exampleEnv
        (exampleRequest ''alice-token'' exampleOverlongBody) exampleWorld =
       (respondWithError StatusBadRequest ''Unable to parse video file'',
        logCall (GetVideoCall ''video-1'') exampleWorld)
   \<and> filter isPutObject (calls (snd (handlerUploadVideo exampleConfig exampleEnv
        (exampleRequest ''alice-token'' exampleOverlongBody) exampleWorld))) = []
   \<and> formExtent (Body (exampleRequest ''alice-token'' (exampleBody ''video/mp4''))) = 143
   \<and> handlerUploadVideo exampleConfig exampleEnv
        (exampleRequest ''alice-token'' (exampleBody ''video/mp4'')) exampleWorld =
      uploadCapped exampleConfig exampleEnv
        ((exampleRequest ''alice-token'' (exampleBody ''video/mp4''))\<lparr>bodyLimit := None\<rparr>) exampleWorld"
proof -
  let ?big = "exampleRequest ''alice-token'' exampleOverlongBody"
  let ?small = "exampleRequest ''alice-token'' (exampleBody ''video/mp4'')"
  let ?part = "\<lparr>ContentType = ''video/mp4'', Data = replicate (2 ^ 30) CHR ''0''\<rparr>"
  have body: "Body ?big = MultipartBody ''tubely-boundary'' [(''video'', ?part)] []"
    by (simp add: example_defs)
  have part: "(''video'', ?part) \<in> set [(''video'', ?part)]" "2 ^ 30 \<le> length (Data ?part)"
    by simp_all
  note inst1 = C3_body_cap [where r = ?big and cfg = exampleConfig and env = exampleEnv
     and w = exampleWorld and boundary = "''tubely-boundary''" and parts = "[(''video'', ?part)]"
     and epilogue = "[]" and key = "''video''" and part = ?part]
  note inst2 = C3_body_cap [where r = ?small and cfg = exampleConfig and env = exampleEnv
     and w = exampleWorld]
  from inst1 body part have big: "2 ^ 30 < formExtent (Body ?big)"
    by blast
  with inst1 have ff: "FormFile (MaxBytesReader (2 ^ 30) ?big) ''video'' = Inl (MaxBytesError (2 ^ 30))"
    and put: "filter isPutObject (calls (snd (handlerUploadVideo exampleConfig exampleEnv ?big exampleWorld))) =
          filter isPutObject (calls exampleWorld)"
    by blast+
  have auth:
    "uuid_Parse exampleEnv (PathValue (MaxBytesReader (2 ^ 30) ?big) ''videoID'') = Inr ''video-1''"
    "GetBearerToken exampleEnv (Header (MaxBytesReader (2 ^ 30) ?big)) = Inr ''alice-token''"
    "ValidateJWT exampleEnv ''alice-token'' (jwtSecret exampleConfig) = Inr ''alice''"
    "db exampleWorld ''video-1'' = Some exampleVideo"
    "UserID exampleVideo = ''alice''"
    "filter isPutObject (calls exampleWorld) = []"
    by (simp_all add: example_defs MaxBytesReader_def)
  from inst1 have "handlerUploadVideo exampleConfig exampleEnv ?big exampleWorld =
      uploadCapped exampleConfig exampleEnv (MaxBytesReader (2 ^ 30) ?big) exampleWorld"
    by blast
  with ff auth have out: "handlerUploadVideo exampleConfig exampleEnv ?big exampleWorld =
       (respondWithError StatusBadRequest ''Unable to parse video file'',
        logCall (GetVideoCall ''video-1'') exampleWorld)"
    by (simp add: uploadCapped_def db_GetVideo_def)
  have small: "formExtent (Body ?small) = 143"
    by (simp add: example_defs formExtent_def encodePart_def CRLF_def)
  then have le: "formExtent (Body ?small) \<le> 2 ^ 30"
    by simp
  note same = inst2 [THEN conjunct2, THEN conjunct2, THEN conjunct2, THEN conjunct2,
    THEN conjunct2, THEN mp, OF le]
  show ?thesis
    using body part(2) big ff out put auth(6) small same by simp
qed

text \<open>
  The claim as written speaks of every request whose body exceeds the ceiling. A body of
  more than one GiB whose form is closed after 143 bytes is accepted: the bytes after the
  closing boundary are never read, the upload is stored and the answer is 200.
\<close>

theorem C3_trailing_bytes_counterexample:
  "bodySize (Body (exampleRequest ''alice-token'' exampleTrailingBody)) = 2 ^ 30 + 143
   \<and> fst (handlerUploadVideo exampleConfig exampleEnv
            (exampleRequest ''alice-token'' exampleTrailingBody) exampleWorld) =
       respondWithJSON StatusOK
         (exampleVideo\<lparr>VideoURL := Some
            ''https://tubely.s3.us-east-2.amazonaws.com/landscape/AAECAwQFBgcICQoLDA0ODxAREhMUFRYXGBkaGxwdHh8.mp4''\<rparr>)
   \<and> filter isPutObject (calls (snd (handlerUploadVideo exampleConfig exampleEnv
            (exampleRequest ''alice-token'' exampleTrailingBody) exampleWorld))) =
       [PutObjectCall ''tubely'' ''landscape/AAECAwQFBgcICQoLDA0ODxAREhMUFRYXGBkaGxwdHh8.mp4''
          ''video/mp4'' ''mp4-bytes'']"
proof -
  have size: "bodySize (Body (exampleRequest ''alice-token'' exampleTrailingBody)) = 2 ^ 30 + 143"
    by (simp add: example_defs bodySize_def encodePart_def CRLF_def)
  have run: "fst (handlerUploadVideo exampleConfig exampleEnv
            (exampleRequest ''alice-token'' exampleTrailingBody) exampleWorld) =
       respondWithJSON StatusOK
         (exampleVideo\<lparr>VideoURL := Some
            ''https://tubely.s3.us-east-2.amazonaws.com/landscape/AAECAwQFBgcICQoLDA0ODxAREhMUFRYXGBkaGxwdHh8.mp4''\<rparr>)"
    "filter isPutObject (calls (snd (handlerUploadVideo exampleConfig exampleEnv
            (exampleRequest ''alice-token'' exampleTrailingBody) exampleWorld))) =
       [PutObjectCall ''tubely'' ''landscape/AAECAwQFBgcICQoLDA0ODxAREhMUFRYXGBkaGxwdHh8.mp4''
          ''video/mp4'' ''mp4-bytes'']"
    using example_token by (simp_all add: eval_defs step_defs example_defs)
  show ?thesis
    using size run by simp
qed

text \<open>
  C4. When the upload to the object store fails, the handler answers with an error and
  does not call \<open>UpdateVideo\<close>: the metadata store is the same before and after the
  request, so the record's video reference stays as it was. Where \<open>PutObject\<close> has been
  called, the answer is the 500 of the failed upload.
\<close>

theorem C4_store_failure:
  assumes "putObjectErr env = Some e"
  shows "db (snd (handlerUploadVideo cfg env r w)) = db w
       \<and> filter isUpdateVideo (calls (snd (handlerUploadVideo cfg env r w))) = filter isUpdateVideo (calls w)
       \<and> (\<forall>code v. fst (handlerUploadVideo cfg env r w) \<noteq> respondWithJSON code v)
       \<and> (filter isPutObject (calls (snd (handlerUploadVideo cfg env r w))) \<noteq> filter isPutObject (calls w)
            \<longrightarrow> fst (handlerUploadVideo cfg env r w) = respondWithError StatusInternalServerError ''Couldn't upload to S3'')"
proof -
  obtain out w' where run: "handlerUploadVideo cfg env r w = (out, w')"
    by (cases "handlerUploadVideo cfg env r w")
  then have capped: "uploadCapped cfg env (MaxBytesReader (push_bit 30 1) r) w = (out, w')"
    by (simp only: handlerUploadVideo_def)
  show ?thesis
    using uploadCapped_store_failure [OF assms capped]
    by (simp add: run)
qed

theorem C4_store_failure_witness:
  "putObjectErr (exampleEnv\<lparr>putObjectErr := Some (Error ''AccessDenied'')\<rparr>) = Some (Error ''AccessDenied'')
   \<and> filter isPutObject (calls (snd (handlerUploadVideo exampleConfig
          (exampleEnv\<lparr>putObjectErr := Some (Error ''AccessDenied'')\<rparr>)
          (exampleRequest ''alice-token'' (exampleBody ''video/mp4'')) exampleWorld)))
       = [PutObjectCall ''tubely'' ''landscape/AAECAwQFBgcICQoLDA0ODxAREhMUFRYXGBkaGxwdHh8.mp4''
            ''video/mp4'' ''mp4-bytes'']
   \<and> filter isPutObject (calls exampleWorld) = []
   \<and> fst (handlerUploadVideo exampleConfig
          (exampleEnv\<lparr>putObjectErr := Some (Error ''AccessDenied'')\<rparr>)
          (exampleRequest ''alice-token'' (exampleBody ''video/mp4'')) exampleWorld)
       = respondWithError StatusInternalServerError ''Couldn't upload to S3''
   \<and> db (snd (handlerUploadVideo exampleConfig
          (exampleEnv\<lparr>putObjectErr := Some (Error ''AccessDenied'')\<rparr>)
          (exampleRequest ''alice-token'' (exampleBody ''video/mp4'')) exampleWorld)) = db exampleWorld
   \<and> db exampleWorld ''video-1'' = Some exampleVideo
   \<and> VideoURL exampleVideo = None"
proof -
  have h: "putObjectErr (exampleEnv\<lparr>putObjectErr := Some (Error ''AccessDenied'')\<rparr>) = Some (Error ''AccessDenied'')"
    by simp
  have put: "filter isPutObject (calls (snd (handlerUploadVideo exampleConfig
          (exampleEnv\<lparr>putObjectErr := Some (Error ''AccessDenied'')\<rparr>)
          (exampleRequest ''alice-token'' (exampleBody ''video/mp4'')) exampleWorld)))
       = [PutObjectCall ''tubely'' ''landscape/AAECAwQFBgcICQoLDA0ODxAREhMUFRYXGBkaGxwdHh8.mp4''
            ''video/mp4'' ''mp4-bytes'']"
    using example_token by (simp add: eval_defs step_defs example_defs)
  have none: "filter isPutObject (calls exampleWorld) = []"
    by (simp add: example_defs)
  have rec: "db exampleWorld ''video-1'' = Some exampleVideo" "VideoURL exampleVideo = None"
    by (simp_all add: example_defs)
  show ?thesis
    using h put none rec
      C4_store_failure [OF h, of exampleConfig
        "exampleRequest ''alice-token'' (exampleBody ''video/mp4'')" exampleWorld]
    by simp
qed

text \<open>
  C5, at a media type without a slash. The part declares \<open>mp4\<close>, which parses as a media
  type and is not \<open>video/mp4\<close>. The handler does not answer 400: the index expression of
  line 78 runs before the check of line 81 and panics.
\<close>

theorem C5_slashless_media_type_panics:
  "ParseMediaType exampleEnv
     (ContentType \<lparr>ContentType = ''mp4'', Data = ''mp4-bytes''\<rparr>) = Inr ''mp4''
   \<and> ''mp4'' \<noteq> ''video/mp4''
   \<and> fst (handlerUploadVideo exampleConfig exampleEnv
            (exampleRequest ''alice-token'' (exampleBody ''mp4'')) exampleWorld)
       = panic ''runtime error: index out of range [1] with length 1''
   \<and> fst (handlerUploadVideo exampleConfig exampleEnv
            (exampleRequest ''alice-token'' (exampleBody ''mp4'')) exampleWorld)
       \<noteq> respondWithError StatusBadRequest ''Invalid file upload''
   \<and> calls (snd (handlerUploadVideo exampleConfig exampleEnv
            (exampleRequest ''alice-token'' (exampleBody ''mp4'')) exampleWorld))
       = [GetVideoCall ''video-1'', MultipartCloseCall]"
  by (simp add: eval_defs step_defs example_defs)

text \<open>
  C6. \<open>getVideoAspectRatio\<close> fails exactly when the probing subprocess could not be
  started or its standard output does not decode as the expected structure; empty output
  is an error, not an orientation. When it fails for the staged file, the request is
  rejected with a 500 and neither the object store nor the metadata store is written.
\<close>

theorem C6_probe_failure:
  "((\<exists>err. fst (getVideoAspectRatio env filePath w) = Inl err) =
      ((\<exists>e. exec env (ffprobeArgs filePath) = StartFailed e)
       \<or> (\<exists>err. json_Unmarshal env (captured (exec env (ffprobeArgs filePath))) = Inl err)))
   \<and> (captured (exec env (ffprobeArgs filePath)) = [] \<longrightarrow>
        fst (getVideoAspectRatio env filePath w) = Inl (Error ''unexpected end of JSON input''))
   \<and> (createTemp env = Inr filePath \<and> fst (getVideoAspectRatio env filePath w) = Inl err \<longrightarrow>
        (\<forall>code v. fst (handlerUploadVideo cfg env r w0) \<noteq> respondWithJSON code v)
        \<and> filter isPutObject (calls (snd (handlerUploadVideo cfg env r w0))) = filter isPutObject (calls w0)
        \<and> filter isUpdateVideo (calls (snd (handlerUploadVideo cfg env r w0))) = filter isUpdateVideo (calls w0)
        \<and> db (snd (handlerUploadVideo cfg env r w0)) = db w0
        \<and> (filter isRun (calls (snd (handlerUploadVideo cfg env r w0))) \<noteq> filter isRun (calls w0) \<longrightarrow>
             fst (handlerUploadVideo cfg env r w0) =
               respondWithError StatusInternalServerError ''Couldn't get aspect ratio''))"
proof (intro conjI impI)
  show "(\<exists>err. fst (getVideoAspectRatio env filePath w) = Inl err) =
      ((\<exists>e. exec env (ffprobeArgs filePath) = StartFailed e)
       \<or> (\<exists>err. json_Unmarshal env (captured (exec env (ffprobeArgs filePath))) = Inl err))"
    by (cases "exec env (ffprobeArgs filePath)")
       (auto simp: getVideoAspectRatio_result captured_def json_Unmarshal_empty split: sum.splits)
next
  assume "captured (exec env (ffprobeArgs filePath)) = []"
  then show "fst (getVideoAspectRatio env filePath w) = Inl (Error ''unexpected end of JSON input'')"
    by (simp add: getVideoAspectRatio_result json_Unmarshal_empty)
next
  assume a: "createTemp env = Inr filePath \<and> fst (getVideoAspectRatio env filePath w) = Inl err"
  then have u: "json_Unmarshal env (captured (exec env (ffprobeArgs filePath))) = Inl err"
    by (simp add: getVideoAspectRatio_result split: sum.splits)
  obtain out w' where run: "handlerUploadVideo cfg env r w0 = (out, w')"
    by (cases "handlerUploadVideo cfg env r w0")
  then have capped: "uploadCapped cfg env (MaxBytesReader (push_bit 30 1) r) w0 = (out, w')"
    by (simp only: handlerUploadVideo_def)
  note facts = uploadCapped_probe_failure [OF conjunct1 [OF a] u capped]
  show "\<forall>code v. fst (handlerUploadVideo cfg env r w0) \<noteq> respondWithJSON code v"
    using facts by (simp add: run)
  show "filter isPutObject (calls (snd (handlerUploadVideo cfg env r w0))) = filter isPutObject (calls w0)"
    using facts by (simp add: run)
  show "filter isUpdateVideo (calls (snd (handlerUploadVideo cfg env r w0))) = filter isUpdateVideo (calls w0)"
    using facts by (simp add: run)
  show "db (snd (handlerUploadVideo cfg env r w0)) = db w0"
    using facts by (simp add: run)
  assume "filter isRun (calls (snd (handlerUploadVideo cfg env r w0))) \<noteq> filter isRun (calls w0)"
  then show "fst (handlerUploadVideo cfg env r w0) =
               respondWithError StatusInternalServerError ''Couldn't get aspect ratio''"
    using facts by (simp add: run)
qed

theorem C6_probe_failure_witness:
  "captured (exec (exampleEnv\<lparr>exec := \<lambda>argv. StartFailed (Error ''executable file not found'')\<rparr>)
       (ffprobeArgs ''/tmp/tubely-upload.mp4-1'')) = []
   \<and> createTemp (exampleEnv\<lparr>exec := \<lambda>argv. StartFailed (Error ''executable file not found'')\<rparr>)
       = Inr ''/tmp/tubely-upload.mp4-1''
   \<and> fst (getVideoAspectRatio
            (exampleEnv\<lparr>exec := \<lambda>argv. StartFailed (Error ''executable file not found'')\<rparr>)
            ''/tmp/tubely-upload.mp4-1'' exampleWorld) = Inl (Error ''unexpected end of JSON input'')
   \<and> filter isRun (calls (snd (handlerUploadVideo exampleConfig
          (exampleEnv\<lparr>exec := \<lambda>argv. StartFailed (Error ''executable file not found'')\<rparr>)
          (exampleRequest ''alice-token'' (exampleBody ''video/mp4'')) exampleWorld)))
       = [RunCall (ffprobeArgs ''/tmp/tubely-upload.mp4-1'')]
   \<and> filter isRun (calls exampleWorld) = []
   \<and> fst (handlerUploadVideo exampleConfig
          (exampleEnv\<lparr>exec := \<lambda>argv. StartFailed (Error ''executable file not found'')\<rparr>)
          (exampleRequest ''alice-token'' (exampleBody ''video/mp4'')) exampleWorld)
       = respondWithError StatusInternalServerError ''Couldn't get aspect ratio''
   \<and> filter isPutObject (calls (snd (handlerUploadVideo exampleConfig
          (exampleEnv\<lparr>exec := \<lambda>argv. StartFailed (Error ''executable file not found'')\<rparr>)
          (exampleRequest ''alice-token'' (exampleBody ''video/mp4'')) exampleWorld))) = []"
proof -
  let ?env = "exampleEnv\<lparr>exec := \<lambda>argv. StartFailed (Error ''executable file not found'')\<rparr>"
  let ?run = "handlerUploadVideo exampleConfig ?env
                (exampleRequest ''alice-token'' (exampleBody ''video/mp4'')) exampleWorld"
  have cap: "captured (exec ?env (ffprobeArgs ''/tmp/tubely-upload.mp4-1'')) = []"
    by (simp add: captured_def)
  have tmp: "createTemp ?env = Inr ''/tmp/tubely-upload.mp4-1''"
    by (simp add: exampleEnv_def)
  have runs: "filter isRun (calls (snd ?run)) = [RunCall (ffprobeArgs ''/tmp/tubely-upload.mp4-1'')]"
    by (simp add: eval_defs step_defs example_defs)
  have none: "filter isRun (calls exampleWorld) = []" "filter isPutObject (calls exampleWorld) = []"
    by (simp_all add: example_defs)
  note inst = C6_probe_failure [of ?env "''/tmp/tubely-upload.mp4-1''" exampleWorld
      "Error ''unexpected end of JSON input''" exampleConfig
      "exampleRequest ''alice-token'' (exampleBody ''video/mp4'')" exampleWorld]
  show ?thesis
    using cap tmp runs none inst by simp
qed

text \<open>
  C7. The handler answers 200 with the updated metadata record exactly when every step
  succeeds. The record's video URL is \<open>https://<bucket>.s3.<region>.amazonaws.com/<key>\<close>
  and the key is \<open><category>/<token>.<extension>\<close>. The category is \<open>landscape\<close> for
  the aspect ratio \<open>16:9\<close> that \<open>getVideoAspectRatio\<close> computed for the staged file,
  \<open>portrait\<close> for \<open>9:16\<close> and \<open>other\<close> for anything else. The token is the unpadded
  URL-safe base64 encoding of the 32 bytes that \<open>rand.Read\<close> of crypto/rand delivered: 43
  characters of \<open>A-Z\<close>, \<open>a-z\<close>, \<open>0-9\<close>, \<open>-\<close> and \<open>_\<close>, from which the bytes can
  be decoded again, so that different bytes give different tokens. The extension is the
  part of the media type \<open>video/mp4\<close> after the slash. The same key goes to the object
  store, with the bytes of the uploaded part, and the same record to the metadata store.
\<close>

theorem C7_success_response:
  "(handlerUploadVideo cfg env r w = (respondWithJSON code video, w') \<longrightarrow>
      code = StatusOK
    \<and> (\<exists>videoId token videoMetadata videoFile tempFile randomBytes aspectRatio category key.
         uuid_Parse env (PathValue r ''videoID'') = Inr videoId
       \<and> GetBearerToken env (Header r) = Inr token
       \<and> ValidateJWT env token (jwtSecret cfg) = Inr (UserID videoMetadata)
       \<and> db w videoId = Some videoMetadata
       \<and> FormFile (MaxBytesReader (2 ^ 30) r) ''video'' = Inr videoFile
       \<and> ParseMediaType env (ContentType videoFile) = Inr ''video/mp4''
       \<and> createTemp env = Inr tempFile \<and> files w tempFile = None
       \<and> copyErr env = None
       \<and> rand_Read env 32 = Inr randomBytes
       \<and> fst (getVideoAspectRatio env tempFile w) = Inr aspectRatio
       \<and> putObjectErr env = None
       \<and> updateVideoErr env = None
       \<and> category = (if aspectRatio = ''16:9'' then ''landscape''
                     else if aspectRatio = ''9:16'' then ''portrait'' else ''other'')
       \<and> key = category @ ''/'' @ EncodeToString randomBytes @ ''.mp4''
       \<and> video = videoMetadata\<lparr>VideoURL := Some (''https://'' @ s3Bucket cfg @ ''.s3.''
             @ s3Region cfg @ ''.amazonaws.com/'' @ key)\<rparr>
       \<and> db w' = (db w)(ID videoMetadata \<mapsto> video)
       \<and> filter isPutObject (calls w') = filter isPutObject (calls w) @
            [PutObjectCall (s3Bucket cfg) key ''video/mp4'' (Data videoFile)]))
   \<and> (uuid_Parse env (PathValue r ''videoID'') = Inr videoId
       \<and> GetBearerToken env (Header r) = Inr token
       \<and> ValidateJWT env token (jwtSecret cfg) = Inr (UserID videoMetadata)
       \<and> db w videoId = Some videoMetadata
       \<and> FormFile (MaxBytesReader (2 ^ 30) r) ''video'' = Inr videoFile
       \<and> ParseMediaType env (ContentType videoFile) = Inr ''video/mp4''
       \<and> createTemp env = Inr tempFile \<and> files w tempFile = None
       \<and> copyErr env = None
       \<and> rand_Read env 32 = Inr randomBytes
       \<and> fst (getVideoAspectRatio env tempFile w) = Inr aspectRatio
       \<and> putObjectErr env = None
       \<and> updateVideoErr env = None \<longrightarrow>
        fst (handlerUploadVideo cfg env r w) =
          respondWithJSON 200
            (videoMetadata\<lparr>VideoURL := Some (''https://'' @ s3Bucket cfg @ ''.s3.''
               @ s3Region cfg @ ''.amazonaws.com/''
               @ (if aspectRatio = ''16:9'' then ''landscape''
                  else if aspectRatio = ''9:16'' then ''portrait'' else ''other'')
               @ ''/'' @ EncodeToString randomBytes @ ''.mp4'')\<rparr>)
      \<and> db (snd (handlerUploadVideo cfg env r w)) =
          (db w)(ID videoMetadata \<mapsto>
            videoMetadata\<lparr>VideoURL := Some (''https://'' @ s3Bucket cfg @ ''.s3.''
               @ s3Region cfg @ ''.amazonaws.com/''
               @ (if aspectRatio = ''16:9'' then ''landscape''
                  else if aspectRatio = ''9:16'' then ''portrait'' else ''other'')
               @ ''/'' @ EncodeToString randomBytes @ ''.mp4'')\<rparr>)
      \<and> calls (snd (handlerUploadVideo cfg env r w)) = calls w @
          [GetVideoCall videoId,
           CreateTempCall tempFile,
           RunCall [''ffprobe'', ''-v'', ''error'', ''-print_format'', ''json'', ''-show_streams'',
                    tempFile],
           PutObjectCall (s3Bucket cfg)
             ((if aspectRatio = ''16:9'' then ''landscape''
               else if aspectRatio = ''9:16'' then ''portrait'' else ''other'')
              @ ''/'' @ EncodeToString randomBytes @ ''.mp4'')
             ''video/mp4'' (Data videoFile),
           UpdateVideoCall
             (videoMetadata\<lparr>VideoURL := Some (''https://'' @ s3Bucket cfg @ ''.s3.''
                @ s3Region cfg @ ''.amazonaws.com/''
                @ (if aspectRatio = ''16:9'' then ''landscape''
                   else if aspectRatio = ''9:16'' then ''portrait'' else ''other'')
                @ ''/'' @ EncodeToString randomBytes @ ''.mp4'')\<rparr>),
           CloseCall tempFile, RemoveCall tempFile, MultipartCloseCall])
   \<and> (rand_Read env 32 = Inr randomBytes \<longrightarrow>
        randomBytes = map (cryptoRand env) [0..<32]
      \<and> length randomBytes = 32
      \<and> length (EncodeToString randomBytes) = 43
      \<and> set (EncodeToString randomBytes)
          \<subseteq> set ''ABCDEFGHIJKLMNOPQRSTUVWXYZabcdefghijklmnopqrstuvwxyz0123456789-_''
      \<and> DecodeString (EncodeToString randomBytes) = randomBytes)
   \<and> (EncodeToString bytes = EncodeToString bytes') = (bytes = bytes')
   \<and> card (EncodeToString ` {bytes. length bytes = 32}) = 2 ^ 256
   \<and> EncodeToString [102, 111, 111, 98, 97, 114] = ''Zm9vYmFy''
   \<and> EncodeToString [102, 111] = ''Zm8''
   \<and> EncodeToString [102] = ''Zg''
   \<and> EncodeToString [251, 255] = ''-_8''
   \<and> go_index (strings_Split ''video/mp4'' CHR ''/'') 1 = Some ''mp4''"
proof -
  let ?cat = "\<lambda>a. if a = ''16:9'' then ''landscape'' else if a = ''9:16'' then ''portrait'' else ''other''"
  have cap: "push_bit 30 1 = (2 ^ 30 :: nat)"
    by simp
  have h: "handlerUploadVideo cfg env r w = uploadCapped cfg env (MaxBytesReader (2 ^ 30) r) w"
    by (simp only: handlerUploadVideo_def cap)
  have same: "PathValue (MaxBytesReader (2 ^ 30) r) = PathValue r"
      "Header (MaxBytesReader (2 ^ 30) r) = Header r"
    by (simp_all add: MaxBytesReader_def)
  have forward: "fst (handlerUploadVideo cfg env r w) =
          respondWithJSON 200
            (vm\<lparr>VideoURL := Some (''https://'' @ s3Bucket cfg @ ''.s3.''
               @ s3Region cfg @ ''.amazonaws.com/'' @ ?cat a
               @ ''/'' @ EncodeToString bs @ ''.mp4'')\<rparr>)
      \<and> db (snd (handlerUploadVideo cfg env r w)) =
          (db w)(ID vm \<mapsto>
            vm\<lparr>VideoURL := Some (''https://'' @ s3Bucket cfg @ ''.s3.''
               @ s3Region cfg @ ''.amazonaws.com/'' @ ?cat a
               @ ''/'' @ EncodeToString bs @ ''.mp4'')\<rparr>)
      \<and> calls (snd (handlerUploadVideo cfg env r w)) = calls w @
          [GetVideoCall vid,
           CreateTempCall tf,
           RunCall [''ffprobe'', ''-v'', ''error'', ''-print_format'', ''json'', ''-show_streams'', tf],
           PutObjectCall (s3Bucket cfg) (?cat a @ ''/'' @ EncodeToString bs @ ''.mp4'')
             ''video/mp4'' (Data vf),
           UpdateVideoCall
             (vm\<lparr>VideoURL := Some (''https://'' @ s3Bucket cfg @ ''.s3.''
                @ s3Region cfg @ ''.amazonaws.com/'' @ ?cat a
                @ ''/'' @ EncodeToString bs @ ''.mp4'')\<rparr>),
           CloseCall tf, RemoveCall tf, MultipartCloseCall]"
    if s: "uuid_Parse env (PathValue r ''videoID'') = Inr vid"
       "GetBearerToken env (Header r) = Inr tok"
       "ValidateJWT env tok (jwtSecret cfg) = Inr (UserID vm)"
       "db w vid = Some vm"
       "FormFile (MaxBytesReader (2 ^ 30) r) ''video'' = Inr vf"
       "ParseMediaType env (ContentType vf) = Inr ''video/mp4''"
       "createTemp env = Inr tf" "files w tf = None"
       "copyErr env = None"
       "rand_Read env 32 = Inr bs"
       "fst (getVideoAspectRatio env tf w) = Inr a"
       "putObjectErr env = None"
       "updateVideoErr env = None"
    for vid tok vm vf tf bs a
  proof -
    from s(10) have r: "randErr env = None" and bs: "bs = map (cryptoRand env) [0..<32]"
      by (auto simp: rand_Read_def split: option.splits)
    from s(11) obtain data where
      d: "json_Unmarshal env (captured (exec env (ffprobeArgs tf))) = Inr data" and
      a: "a = classifyStreams data"
      by (auto simp: getVideoAspectRatio_result split: sum.splits)
    note ok = uploadCapped_ok [of env "MaxBytesReader (2 ^ 30) r" vid tok cfg vm w vf tf data,
      unfolded same, OF s(1-9) r d s(12,13)]
    show ?thesis
      using ok by (simp add: h bs a directoryOf_def ffprobeArgs_def)
  qed
  have backward: "code = StatusOK
    \<and> (\<exists>videoId token videoMetadata videoFile tempFile randomBytes aspectRatio category key.
         uuid_Parse env (PathValue r ''videoID'') = Inr videoId
       \<and> GetBearerToken env (Header r) = Inr token
       \<and> ValidateJWT env token (jwtSecret cfg) = Inr (UserID videoMetadata)
       \<and> db w videoId = Some videoMetadata
       \<and> FormFile (MaxBytesReader (2 ^ 30) r) ''video'' = Inr videoFile
       \<and> ParseMediaType env (ContentType videoFile) = Inr ''video/mp4''
       \<and> createTemp env = Inr tempFile \<and> files w tempFile = None
       \<and> copyErr env = None
       \<and> rand_Read env 32 = Inr randomBytes
       \<and> fst (getVideoAspectRatio env tempFile w) = Inr aspectRatio
       \<and> putObjectErr env = None
       \<and> updateVideoErr env = None
       \<and> category = ?cat aspectRatio
       \<and> key = category @ ''/'' @ EncodeToString randomBytes @ ''.mp4''
       \<and> video = videoMetadata\<lparr>VideoURL := Some (''https://'' @ s3Bucket cfg @ ''.s3.''
             @ s3Region cfg @ ''.amazonaws.com/'' @ key)\<rparr>
       \<and> db w' = (db w)(ID videoMetadata \<mapsto> video)
       \<and> filter isPutObject (calls w') = filter isPutObject (calls w) @
            [PutObjectCall (s3Bucket cfg) key ''video/mp4'' (Data videoFile)])"
    if run: "handlerUploadVideo cfg env r w = (respondWithJSON code video, w')"
  proof -
    from run have capped:
      "uploadCapped cfg env (MaxBytesReader (2 ^ 30) r) w = (respondWithJSON code video, w')"
      by (simp only: h)
    from uploadCapped_success [OF capped] obtain vid tok vm vf tf data where
      code: "code = StatusOK" and
      s: "uuid_Parse env (PathValue r ''videoID'') = Inr vid"
         "GetBearerToken env (Header r) = Inr tok"
         "ValidateJWT env tok (jwtSecret cfg) = Inr (UserID vm)"
         "db w vid = Some vm"
         "FormFile (MaxBytesReader (2 ^ 30) r) ''video'' = Inr vf"
         "ParseMediaType env (ContentType vf) = Inr ''video/mp4''"
         "createTemp env = Inr tf" and
      d: "json_Unmarshal env (captured (exec env (ffprobeArgs tf))) = Inr data"
      unfolding same by blast
    from uploadCapped_steps [OF capped] s(7) have
      t: "files w tf = None" "copyErr env = None" "randErr env = None"
         "putObjectErr env = None" "updateVideoErr env = None"
      by auto
    have rr: "rand_Read env 32 = Inr (map (cryptoRand env) [0..<32])"
      using t(3) by (simp add: rand_Read_def)
    have a: "fst (getVideoAspectRatio env tf w) = Inr (classifyStreams data)"
      by (simp add: getVideoAspectRatio_result d)
    note f = forward [OF s t(1,2) rr a t(4,5)]
    from f run have v: "video = vm\<lparr>VideoURL := Some (''https://'' @ s3Bucket cfg @ ''.s3.''
               @ s3Region cfg @ ''.amazonaws.com/'' @ ?cat (classifyStreams data)
               @ ''/'' @ EncodeToString (map (cryptoRand env) [0..<32]) @ ''.mp4'')\<rparr>"
      by simp
    from f run have dbw: "db w' = (db w)(ID vm \<mapsto> video)"
      by (simp add: v)
    from f run have c: "filter isPutObject (calls w') = filter isPutObject (calls w) @
            [PutObjectCall (s3Bucket cfg)
               (?cat (classifyStreams data) @ ''/''
                  @ EncodeToString (map (cryptoRand env) [0..<32]) @ ''.mp4'')
               ''video/mp4'' (Data vf)]"
      by simp
    show ?thesis
      apply (rule conjI [OF code])
      apply (rule exI [of _ vid], rule exI [of _ tok], rule exI [of _ vm], rule exI [of _ vf],
             rule exI [of _ tf], rule exI [of _ "map (cryptoRand env) [0..<32]"],
             rule exI [of _ "classifyStreams data"],
             rule exI [of _ "?cat (classifyStreams data)"],
             rule exI [of _ "?cat (classifyStreams data) @ ''/''
                  @ EncodeToString (map (cryptoRand env) [0..<32]) @ ''.mp4''"])
      using s t(1,2,4,5) rr a v dbw c
      by simp
  qed
  have token: "randomBytes = map (cryptoRand env) [0..<32]
      \<and> length randomBytes = 32
      \<and> length (EncodeToString randomBytes) = 43
      \<and> set (EncodeToString randomBytes)
          \<subseteq> set ''ABCDEFGHIJKLMNOPQRSTUVWXYZabcdefghijklmnopqrstuvwxyz0123456789-_''
      \<and> DecodeString (EncodeToString randomBytes) = randomBytes"
    if rr: "rand_Read env 32 = Inr randomBytes"
  proof -
    from rr have bs: "randomBytes = map (cryptoRand env) [0..<32]"
      by (auto simp: rand_Read_def split: option.splits)
    then have len: "length randomBytes = 32"
      by simp
    have tok: "length (EncodeToString randomBytes) = 43"
      by (simp add: length_EncodeToString len)
    have alph: "set (EncodeToString randomBytes)
          \<subseteq> set ''ABCDEFGHIJKLMNOPQRSTUVWXYZabcdefghijklmnopqrstuvwxyz0123456789-_''"
      using set_EncodeToString [of randomBytes] by (simp only: encodeURL_def)
    show ?thesis
      using bs len tok alph DecodeString_EncodeToString [of randomBytes] by blast
  qed
  have inj: "(EncodeToString bytes = EncodeToString bytes') = (bytes = bytes')"
    using EncodeToString_inj by blast
  show ?thesis
    apply (intro conjI impI)
    subgoal using backward by blast
    subgoal using backward by blast
    subgoal using forward by blast
    subgoal using forward by blast
    subgoal using forward by blast
    subgoal using token by blast
    subgoal using token by blast
    subgoal using token by blast
    subgoal using token by blast
    subgoal using token by blast
    subgoal by (rule inj)
    subgoal by (rule card_tokens)
    subgoal by (rule EncodeToString_vectors)
    subgoal by (rule EncodeToString_vectors)
    subgoal by (rule EncodeToString_vectors)
    subgoal by (rule EncodeToString_vectors)
    subgoal by (rule strings_Split_mp4)
    done
qed

theorem C7_success_response_witness:
  "fst (handlerUploadVideo exampleConfig exampleEnv
      (exampleRequest ''alice-token'' (exampleBody ''video/mp4'')) exampleWorld) =
     respondWithJSON 200
        (exampleVideo\<lparr>VideoURL := Some
           ''https://tubely.s3.us-east-2.amazonaws.com/landscape/AAECAwQFBgcICQoLDA0ODxAREhMUFRYXGBkaGxwdHh8.mp4''\<rparr>)
   \<and> calls (snd (handlerUploadVideo exampleConfig exampleEnv
         (exampleRequest ''alice-token'' (exampleBody ''video/mp4'')) exampleWorld)) =
       [GetVideoCall ''video-1'',
        CreateTempCall ''/tmp/tubely-upload.mp4-1'',
        RunCall [''ffprobe'', ''-v'', ''error'', ''-print_format'', ''json'', ''-show_streams'',
                 ''/tmp/tubely-upload.mp4-1''],
        PutObjectCall ''tubely'' ''landscape/AAECAwQFBgcICQoLDA0ODxAREhMUFRYXGBkaGxwdHh8.mp4''
          ''video/mp4'' ''mp4-bytes'',
        UpdateVideoCall (exampleVideo\<lparr>VideoURL := Some
           ''https://tubely.s3.us-east-2.amazonaws.com/landscape/AAECAwQFBgcICQoLDA0ODxAREhMUFRYXGBkaGxwdHh8.mp4''\<rparr>),
        CloseCall ''/tmp/tubely-upload.mp4-1'',
        RemoveCall ''/tmp/tubely-upload.mp4-1'',
        MultipartCloseCall]
   \<and> db (snd (handlerUploadVideo exampleConfig exampleEnv
         (exampleRequest ''alice-token'' (exampleBody ''video/mp4'')) exampleWorld)) ''video-1'' =
       Some (exampleVideo\<lparr>VideoURL := Some
           ''https://tubely.s3.us-east-2.amazonaws.com/landscape/AAECAwQFBgcICQoLDA0ODxAREhMUFRYXGBkaGxwdHh8.mp4''\<rparr>)
   \<and> fst (handlerUploadVideo exampleConfig
        (exampleEnv\<lparr>exec := (\<lambda>argv. Exited 0 ''{streams:[video 1080x1920]}'')\<rparr>)
        (exampleRequest ''alice-token'' (exampleBody ''video/mp4'')) exampleWorld) =
     respondWithJSON 200
        (exampleVideo\<lparr>VideoURL := Some
           ''https://tubely.s3.us-east-2.amazonaws.com/portrait/AAECAwQFBgcICQoLDA0ODxAREhMUFRYXGBkaGxwdHh8.mp4''\<rparr>)
   \<and> fst (handlerUploadVideo exampleConfig
        (exampleEnv\<lparr>exec := (\<lambda>argv. Exited 0 ''{streams:[video 1000x1000]}'')\<rparr>)
        (exampleRequest ''alice-token'' (exampleBody ''video/mp4'')) exampleWorld) =
     respondWithJSON 200
        (exampleVideo\<lparr>VideoURL := Some
           ''https://tubely.s3.us-east-2.amazonaws.com/other/AAECAwQFBgcICQoLDA0ODxAREhMUFRYXGBkaGxwdHh8.mp4''\<rparr>)
   \<and> rand_Read exampleEnv 32 =
       Inr [0, 1, 2, 3, 4, 5, 6, 7, 8, 9, 10, 11, 12, 13, 14, 15, 16, 17, 18, 19, 20, 21,
            22, 23, 24, 25, 26, 27, 28, 29, 30, 31]
   \<and> length ''AAECAwQFBgcICQoLDA0ODxAREhMUFRYXGBkaGxwdHh8'' = 43
   \<and> handlerUploadVideo exampleConfig exampleEnv
        (exampleRequest ''alice-token'' (exampleBody ''video/mp4'')) exampleWorld =
       (respondWithJSON 200
          (exampleVideo\<lparr>VideoURL := Some
             ''https://tubely.s3.us-east-2.amazonaws.com/landscape/AAECAwQFBgcICQoLDA0ODxAREhMUFRYXGBkaGxwdHh8.mp4''\<rparr>),
        snd (handlerUploadVideo exampleConfig exampleEnv
               (exampleRequest ''alice-token'' (exampleBody ''video/mp4'')) exampleWorld))"
proof -
  let ?r = "exampleRequest ''alice-token'' (exampleBody ''video/mp4'')"
  let ?vf = "\<lparr>ContentType = ''video/mp4'', Data = ''mp4-bytes''\<rparr>"
  let ?tf = "''/tmp/tubely-upload.mp4-1''"
  let ?bs = "[0, 1, 2, 3, 4, 5, 6, 7, 8, 9, 10, 11, 12, 13, 14, 15, 16, 17, 18, 19, 20, 21,
            22, 23, 24, 25, 26, 27, 28, 29, 30, 31] :: 8 word list"
  let ?portrait = "exampleEnv\<lparr>exec := (\<lambda>argv. Exited 0 ''{streams:[video 1080x1920]}'')\<rparr>"
  let ?other = "exampleEnv\<lparr>exec := (\<lambda>argv. Exited 0 ''{streams:[video 1000x1000]}'')\<rparr>"
  have fixed:
    "db exampleWorld ''video-1'' = Some exampleVideo"
    "FormFile (MaxBytesReader (2 ^ 30) ?r) ''video'' = Inr ?vf"
    "files exampleWorld ?tf = None"
    by (simp_all add: example_defs MaxBytesReader_def FormFile_def readBody_def formExtent_def
          encodePart_def CRLF_def)
  have steps:
    "uuid_Parse (exampleEnv\<lparr>exec := x\<rparr>) (PathValue ?r ''videoID'') = Inr ''video-1''"
    "GetBearerToken (exampleEnv\<lparr>exec := x\<rparr>) (Header ?r) = Inr ''alice-token''"
    "ValidateJWT (exampleEnv\<lparr>exec := x\<rparr>) ''alice-token'' (jwtSecret exampleConfig) = Inr (UserID exampleVideo)"
    "ParseMediaType (exampleEnv\<lparr>exec := x\<rparr>) (ContentType ?vf) = Inr ''video/mp4''"
    "createTemp (exampleEnv\<lparr>exec := x\<rparr>) = Inr ?tf"
    "copyErr (exampleEnv\<lparr>exec := x\<rparr>) = None"
    "rand_Read (exampleEnv\<lparr>exec := x\<rparr>) 32 = Inr ?bs"
    "putObjectErr (exampleEnv\<lparr>exec := x\<rparr>) = None"
    "updateVideoErr (exampleEnv\<lparr>exec := x\<rparr>) = None"
    for x
    by (simp_all add: example_defs rand_Read_def upt_32)
  have same: "exampleEnv\<lparr>exec := (\<lambda>argv. Exited 0 ''{streams:[video 1920x1080, audio]}'')\<rparr> = exampleEnv"
    by (simp add: exampleEnv_def)
  have ratio:
    "fst (getVideoAspectRatio exampleEnv ?tf exampleWorld) = Inr ''16:9''"
    "fst (getVideoAspectRatio ?portrait ?tf exampleWorld) = Inr ''9:16''"
    "fst (getVideoAspectRatio ?other ?tf exampleWorld) = Inr ''other''"
    by (simp_all add: getVideoAspectRatio_result exampleEnv_def captured_def json_Unmarshal_def
          classifyStreams_def aspectRatioOf_examples)
  have tok: "EncodeToString ?bs = ''AAECAwQFBgcICQoLDA0ODxAREhMUFRYXGBkaGxwdHh8''"
    by (simp add: encodeChar_def encodeURL_def)
  have cfg: "s3Bucket exampleConfig = ''tubely''" "s3Region exampleConfig = ''us-east-2''"
    "calls exampleWorld = []" "ID exampleVideo = ''video-1''"
    by (simp_all add: example_defs)
  note landscape = C7_success_response [where cfg = exampleConfig and env = exampleEnv
      and r = ?r and w = exampleWorld and videoId = "''video-1''" and token = "''alice-token''"
      and videoMetadata = exampleVideo and videoFile = ?vf and tempFile = ?tf
      and randomBytes = ?bs and aspectRatio = "''16:9''"]
  note portrait = C7_success_response [where cfg = exampleConfig and env = ?portrait
      and r = ?r and w = exampleWorld and videoId = "''video-1''" and token = "''alice-token''"
      and videoMetadata = exampleVideo and videoFile = ?vf and tempFile = ?tf
      and randomBytes = ?bs and aspectRatio = "''9:16''"]
  note other = C7_success_response [where cfg = exampleConfig and env = ?other
      and r = ?r and w = exampleWorld and videoId = "''video-1''" and token = "''alice-token''"
      and videoMetadata = exampleVideo and videoFile = ?vf and tempFile = ?tf
      and randomBytes = ?bs and aspectRatio = "''other''"]
  have hl: "uuid_Parse exampleEnv (PathValue ?r ''videoID'') = Inr ''video-1''
       \<and> GetBearerToken exampleEnv (Header ?r) = Inr ''alice-token''
       \<and> ValidateJWT exampleEnv ''alice-token'' (jwtSecret exampleConfig) = Inr (UserID exampleVideo)
       \<and> db exampleWorld ''video-1'' = Some exampleVideo
       \<and> FormFile (MaxBytesReader (2 ^ 30) ?r) ''video'' = Inr ?vf
       \<and> ParseMediaType exampleEnv (ContentType ?vf) = Inr ''video/mp4''
       \<and> createTemp exampleEnv = Inr ?tf \<and> files exampleWorld ?tf = None
       \<and> copyErr exampleEnv = None
       \<and> rand_Read exampleEnv 32 = Inr ?bs
       \<and> fst (getVideoAspectRatio exampleEnv ?tf exampleWorld) = Inr ''16:9''
       \<and> putObjectErr exampleEnv = None
       \<and> updateVideoErr exampleEnv = None"
    using fixed steps [of "\<lambda>argv. Exited 0 ''{streams:[video 1920x1080, audio]}''", unfolded same]
      ratio(1)
    by simp
  have hp: "uuid_Parse ?portrait (PathValue ?r ''videoID'') = Inr ''video-1''
       \<and> GetBearerToken ?portrait (Header ?r) = Inr ''alice-token''
       \<and> ValidateJWT ?portrait ''alice-token'' (jwtSecret exampleConfig) = Inr (UserID exampleVideo)
       \<and> db exampleWorld ''video-1'' = Some exampleVideo
       \<and> FormFile (MaxBytesReader (2 ^ 30) ?r) ''video'' = Inr ?vf
       \<and> ParseMediaType ?portrait (ContentType ?vf) = Inr ''video/mp4''
       \<and> createTemp ?portrait = Inr ?tf \<and> files exampleWorld ?tf = None
       \<and> copyErr ?portrait = None
       \<and> rand_Read ?portrait 32 = Inr ?bs
       \<and> fst (getVideoAspectRatio ?portrait ?tf exampleWorld) = Inr ''9:16''
       \<and> putObjectErr ?portrait = None
       \<and> updateVideoErr ?portrait = None"
    using fixed steps [of "\<lambda>argv. Exited 0 ''{streams:[video 1080x1920]}''"] ratio(2)
    by simp
  have ho: "uuid_Parse ?other (PathValue ?r ''videoID'') = Inr ''video-1''
       \<and> GetBearerToken ?other (Header ?r) = Inr ''alice-token''
       \<and> ValidateJWT ?other ''alice-token'' (jwtSecret exampleConfig) = Inr (UserID exampleVideo)
       \<and> db exampleWorld ''video-1'' = Some exampleVideo
       \<and> FormFile (MaxBytesReader (2 ^ 30) ?r) ''video'' = Inr ?vf
       \<and> ParseMediaType ?other (ContentType ?vf) = Inr ''video/mp4''
       \<and> createTemp ?other = Inr ?tf \<and> files exampleWorld ?tf = None
       \<and> copyErr ?other = None
       \<and> rand_Read ?other 32 = Inr ?bs
       \<and> fst (getVideoAspectRatio ?other ?tf exampleWorld) = Inr ''other''
       \<and> putObjectErr ?other = None
       \<and> updateVideoErr ?other = None"
    using fixed steps [of "\<lambda>argv. Exited 0 ''{streams:[video 1000x1000]}''"] ratio(3)
    by simp
  note cl = landscape [THEN conjunct2, THEN conjunct1, THEN mp, OF hl, unfolded tok]
  note cp = portrait [THEN conjunct2, THEN conjunct1, THEN mp, OF hp, unfolded tok]
  note co = other [THEN conjunct2, THEN conjunct1, THEN mp, OF ho, unfolded tok]
  have l: "fst (handlerUploadVideo exampleConfig exampleEnv ?r exampleWorld) =
     respondWithJSON 200 (exampleVideo\<lparr>VideoURL := Some ''https://tubely.s3.us-east-2.amazonaws.com/landscape/AAECAwQFBgcICQoLDA0ODxAREhMUFRYXGBkaGxwdHh8.mp4''\<rparr>)"
    "calls (snd (handlerUploadVideo exampleConfig exampleEnv ?r exampleWorld)) =
       [GetVideoCall ''video-1'',
        CreateTempCall ''/tmp/tubely-upload.mp4-1'',
        RunCall [''ffprobe'', ''-v'', ''error'', ''-print_format'', ''json'', ''-show_streams'',
                 ''/tmp/tubely-upload.mp4-1''],
        PutObjectCall ''tubely'' ''landscape/AAECAwQFBgcICQoLDA0ODxAREhMUFRYXGBkaGxwdHh8.mp4''
          ''video/mp4'' ''mp4-bytes'',
        UpdateVideoCall (exampleVideo\<lparr>VideoURL := Some ''https://tubely.s3.us-east-2.amazonaws.com/landscape/AAECAwQFBgcICQoLDA0ODxAREhMUFRYXGBkaGxwdHh8.mp4''\<rparr>),
        CloseCall ''/tmp/tubely-upload.mp4-1'',
        RemoveCall ''/tmp/tubely-upload.mp4-1'',
        MultipartCloseCall]"
    "db (snd (handlerUploadVideo exampleConfig exampleEnv ?r exampleWorld)) ''video-1'' =
       Some (exampleVideo\<lparr>VideoURL := Some ''https://tubely.s3.us-east-2.amazonaws.com/landscape/AAECAwQFBgcICQoLDA0ODxAREhMUFRYXGBkaGxwdHh8.mp4''\<rparr>)"
    using cl by (simp_all add: cfg)
  have p: "fst (handlerUploadVideo exampleConfig ?portrait ?r exampleWorld) =
     respondWithJSON 200 (exampleVideo\<lparr>VideoURL := Some ''https://tubely.s3.us-east-2.amazonaws.com/portrait/AAECAwQFBgcICQoLDA0ODxAREhMUFRYXGBkaGxwdHh8.mp4''\<rparr>)"
    using cp by (simp add: cfg)
  have o: "fst (handlerUploadVideo exampleConfig ?other ?r exampleWorld) =
     respondWithJSON 200 (exampleVideo\<lparr>VideoURL := Some ''https://tubely.s3.us-east-2.amazonaws.com/other/AAECAwQFBgcICQoLDA0ODxAREhMUFRYXGBkaGxwdHh8.mp4''\<rparr>)"
    using co by (simp add: cfg)
  have rr: "rand_Read exampleEnv 32 = Inr ?bs"
    using steps(7) [of "\<lambda>argv. Exited 0 ''{streams:[video 1920x1080, audio]}''", unfolded same] .
  from l(1) have run: "handlerUploadVideo exampleConfig exampleEnv ?r exampleWorld =
       (respondWithJSON 200
          (exampleVideo\<lparr>VideoURL := Some
             ''https://tubely.s3.us-east-2.amazonaws.com/landscape/AAECAwQFBgcICQoLDA0ODxAREhMUFRYXGBkaGxwdHh8.mp4''\<rparr>),
        snd (handlerUploadVideo exampleConfig exampleEnv ?r exampleWorld))"
    by (metis prod.collapse)
  show ?thesis
    using l p o rr run by simp
qed

text \<open>
  C8. Once the staged temporary file has been created, every way out of the handler closes
  its handle and then removes it, by the two deferred calls: success, a failed copy, a
  failed read of random bytes, a failed classification, a failed upload and a failed
  metadata write all end with the same three calls, and the filesystem is as it was before
  the request.
\<close>

theorem C8_staged_file_released:
  "files (snd (handlerUploadVideo cfg env r w)) = files w
   \<and> (CreateTempCall name \<in> set (calls (snd (handlerUploadVideo cfg env r w)))
       \<and> CreateTempCall name \<notin> set (calls w) \<longrightarrow>
         createTemp env = Inr name
       \<and> files w name = None
       \<and> files (snd (handlerUploadVideo cfg env r w)) name = None
       \<and> handles (snd (handlerUploadVideo cfg env r w)) name = None
       \<and> (\<exists>before. calls (snd (handlerUploadVideo cfg env r w)) =
             before @ [CloseCall name, RemoveCall name, MultipartCloseCall]))"
proof -
  obtain out w' where run: "handlerUploadVideo cfg env r w = (out, w')"
    by (cases "handlerUploadVideo cfg env r w")
  then have capped: "uploadCapped cfg env (MaxBytesReader (push_bit 30 1) r) w = (out, w')"
    by (simp only: handlerUploadVideo_def)
  have "files w' = files w
   \<and> (CreateTempCall name \<in> set (calls w') \<and> CreateTempCall name \<notin> set (calls w) \<longrightarrow>
         createTemp env = Inr name \<and> files w name = None \<and> files w' name = None
       \<and> handles w' name = None
       \<and> (\<exists>before. calls w' = before @ [CloseCall name, RemoveCall name, MultipartCloseCall]))"
    using capped
  proof (cases rule: uploadCapped_cases)
    case (refused code msg)
    then show ?thesis by auto
  next
    case (parsed videoId vm vf w2)
    have f: "files w2 = files w"
      using uploadParsed_release(1) [OF parsed(3)] by (simp add: logCall_def)
    have "createTemp env = Inr name \<and> files w name = None \<and> handles w2 name = None
           \<and> (\<exists>before. calls w2 = before @ [CloseCall name, RemoveCall name])"
      if "CreateTempCall name \<in> set (calls w2)" "CreateTempCall name \<notin> set (calls w)"
      using uploadParsed_release(2) [OF parsed(3), of name] that by (simp add: logCall_def)
    with f parsed(4) show ?thesis
      by (auto simp: multipart_Close_def logCall_def)
  qed
  then show ?thesis
    by (simp add: run)
qed

theorem C8_staged_file_released_witness:
  "CreateTempCall ''/tmp/tubely-upload.mp4-1'' \<in> set (calls (snd (handlerUploadVideo exampleConfig
       (exampleEnv\<lparr>putObjectErr := Some (Error ''RequestTimeout'')\<rparr>)
       (exampleRequest ''alice-token'' (exampleBody ''video/mp4'')) exampleWorld)))
   \<and> CreateTempCall ''/tmp/tubely-upload.mp4-1'' \<notin> set (calls exampleWorld)
   \<and> files (snd (handlerUploadVideo exampleConfig
       (exampleEnv\<lparr>putObjectErr := Some (Error ''RequestTimeout'')\<rparr>)
       (exampleRequest ''alice-token'' (exampleBody ''video/mp4'')) exampleWorld))
         ''/tmp/tubely-upload.mp4-1'' = None
   \<and> handles (snd (handlerUploadVideo exampleConfig
       (exampleEnv\<lparr>putObjectErr := Some (Error ''RequestTimeout'')\<rparr>)
       (exampleRequest ''alice-token'' (exampleBody ''video/mp4'')) exampleWorld))
         ''/tmp/tubely-upload.mp4-1'' = None
   \<and> calls (snd (handlerUploadVideo exampleConfig
       (exampleEnv\<lparr>putObjectErr := Some (Error ''RequestTimeout'')\<rparr>)
       (exampleRequest ''alice-token'' (exampleBody ''video/mp4'')) exampleWorld)) =
       [GetVideoCall ''video-1'',
        CreateTempCall ''/tmp/tubely-upload.mp4-1'',
        RunCall (ffprobeArgs ''/tmp/tubely-upload.mp4-1''),
        PutObjectCall ''tubely'' ''landscape/AAECAwQFBgcICQoLDA0ODxAREhMUFRYXGBkaGxwdHh8.mp4''
          ''video/mp4'' ''mp4-bytes'',
        CloseCall ''/tmp/tubely-upload.mp4-1'',
        RemoveCall ''/tmp/tubely-upload.mp4-1'',
        MultipartCloseCall]"
proof -
  let ?env = "exampleEnv\<lparr>putObjectErr := Some (Error ''RequestTimeout'')\<rparr>"
  let ?run = "handlerUploadVideo exampleConfig ?env
                (exampleRequest ''alice-token'' (exampleBody ''video/mp4'')) exampleWorld"
  have log: "calls (snd ?run) =
       [GetVideoCall ''video-1'',
        CreateTempCall ''/tmp/tubely-upload.mp4-1'',
        RunCall (ffprobeArgs ''/tmp/tubely-upload.mp4-1''),
        PutObjectCall ''tubely'' ''landscape/AAECAwQFBgcICQoLDA0ODxAREhMUFRYXGBkaGxwdHh8.mp4''
          ''video/mp4'' ''mp4-bytes'',
        CloseCall ''/tmp/tubely-upload.mp4-1'',
        RemoveCall ''/tmp/tubely-upload.mp4-1'',
        MultipartCloseCall]"
    using example_token by (simp add: eval_defs step_defs example_defs)
  have before: "CreateTempCall ''/tmp/tubely-upload.mp4-1'' \<notin> set (calls exampleWorld)"
    by (simp add: exampleWorld_def)
  have created: "CreateTempCall ''/tmp/tubely-upload.mp4-1'' \<in> set (calls (snd ?run))"
    by (simp add: log)
  note inst = C8_staged_file_released [of exampleConfig ?env
      "exampleRequest ''alice-token'' (exampleBody ''video/mp4'')" exampleWorld
      "''/tmp/tubely-upload.mp4-1''"]
  show ?thesis
    using inst created before log by simp
qed

text \<open>
  C9. When the probe output decodes but has no video-typed stream, width and height stay
  zero, \<open>0 == 16*0/9\<close> holds and \<open>getVideoAspectRatio\<close> returns \<open>16:9\<close>: the handler
  does not report a classification error, and what it uploads and records is under
  \<open>landscape/\<close>.
\<close>

theorem C9_no_video_stream_is_landscape:
  assumes dec: "json_Unmarshal env (captured (exec env (ffprobeArgs filePath))) = Inr data"
      and none: "filter (\<lambda>s. CodecType s = ''video'') (Streams data) = []"
  shows "scanStreams (Streams data) (0, 0) = (0, 0)
     \<and> fst (getVideoAspectRatio env filePath w) = Inr ''16:9''
     \<and> directoryOf ''16:9'' = ''landscape''
     \<and> (createTemp env = Inr filePath \<longrightarrow>
           fst (handlerUploadVideo cfg env r w0)
             \<noteq> respondWithError StatusInternalServerError ''Couldn't get aspect ratio''
         \<and> (filter isPutObject (calls (snd (handlerUploadVideo cfg env r w0))) = filter isPutObject (calls w0)
            \<or> (\<exists>body. filter isPutObject (calls (snd (handlerUploadVideo cfg env r w0))) =
                  filter isPutObject (calls w0) @
                  [PutObjectCall (s3Bucket cfg)
                     (''landscape/'' @ EncodeToString (map (cryptoRand env) [0..<32]) @ ''.mp4'')
                     ''video/mp4'' body]))
         \<and> (\<forall>code video. fst (handlerUploadVideo cfg env r w0) = respondWithJSON code video \<longrightarrow>
               VideoURL video = Some (''https://'' @ s3Bucket cfg @ ''.s3.'' @ s3Region cfg
                 @ ''.amazonaws.com/landscape/''
                 @ EncodeToString (map (cryptoRand env) [0..<32]) @ ''.mp4'')))"
proof (intro conjI impI allI)
  show "scanStreams (Streams data) (0, 0) = (0, 0)"
    using none by (simp add: scanStreams_last_video)
  have cl: "classifyStreams data = ''16:9''"
    using none by (rule classifyStreams_no_video)
  then show "fst (getVideoAspectRatio env filePath w) = Inr ''16:9''"
    by (simp add: getVideoAspectRatio_result dec)
  show dir: "directoryOf ''16:9'' = ''landscape''"
    by (simp add: directoryOf_def)
  obtain out w' where run: "handlerUploadVideo cfg env r w0 = (out, w')"
    by (cases "handlerUploadVideo cfg env r w0")
  then have capped: "uploadCapped cfg env (MaxBytesReader (push_bit 30 1) r) w0 = (out, w')"
    by (simp only: handlerUploadVideo_def)
  assume tmp: "createTemp env = Inr filePath"
  have "out \<noteq> respondWithError StatusInternalServerError ''Couldn't get aspect ratio''
      \<and> (filter isPutObject (calls w') = filter isPutObject (calls w0)
         \<or> (\<exists>body. filter isPutObject (calls w') = filter isPutObject (calls w0) @
               [PutObjectCall (s3Bucket cfg)
                  (''landscape/'' @ EncodeToString (map (cryptoRand env) [0..<32]) @ ''.mp4'')
                  ''video/mp4'' body]))"
    using capped
  proof (cases rule: uploadCapped_cases)
    case (refused code msg)
    then show ?thesis by auto
  next
    case (parsed videoId vm vf w2)
    from uploadParsed_key [OF parsed(3) tmp dec] parsed(4) cl dir show ?thesis
      by (auto simp: multipart_Close_def logCall_def)
  qed
  then show "fst (handlerUploadVideo cfg env r w0)
             \<noteq> respondWithError StatusInternalServerError ''Couldn't get aspect ratio''"
    and "filter isPutObject (calls (snd (handlerUploadVideo cfg env r w0))) = filter isPutObject (calls w0)
            \<or> (\<exists>body. filter isPutObject (calls (snd (handlerUploadVideo cfg env r w0))) =
                  filter isPutObject (calls w0) @
                  [PutObjectCall (s3Bucket cfg)
                     (''landscape/'' @ EncodeToString (map (cryptoRand env) [0..<32]) @ ''.mp4'')
                     ''video/mp4'' body])"
    by (simp_all add: run)
  fix code video
  assume "fst (handlerUploadVideo cfg env r w0) = respondWithJSON code video"
  with capped run have "uploadCapped cfg env (MaxBytesReader (push_bit 30 1) r) w0
      = (respondWithJSON code video, w')"
    by simp
  from uploadCapped_success [OF this] tmp dec cl dir
  show "VideoURL video = Some (''https://'' @ s3Bucket cfg @ ''.s3.'' @ s3Region cfg
                 @ ''.amazonaws.com/landscape/''
                 @ EncodeToString (map (cryptoRand env) [0..<32]) @ ''.mp4'')"
    by auto
qed

theorem C9_no_video_stream_is_landscape_witness:
  "json_Unmarshal (exampleEnv\<lparr>exec := \<lambda>argv. Exited 0 ''{}''\<rparr>)
      (captured (exec (exampleEnv\<lparr>exec := \<lambda>argv. Exited 0 ''{}''\<rparr>)
         (ffprobeArgs ''/tmp/tubely-upload.mp4-1''))) = Inr \<lparr>Streams = []\<rparr>
   \<and> filter (\<lambda>s. CodecType s = ''video'') (Streams \<lparr>Streams = []\<rparr>) = []
   \<and> createTemp (exampleEnv\<lparr>exec := \<lambda>argv. Exited 0 ''{}''\<rparr>) = Inr ''/tmp/tubely-upload.mp4-1''
   \<and> fst (getVideoAspectRatio (exampleEnv\<lparr>exec := \<lambda>argv. Exited 0 ''{}''\<rparr>)
          ''/tmp/tubely-upload.mp4-1'' exampleWorld) = Inr ''16:9''
   \<and> fst (handlerUploadVideo exampleConfig (exampleEnv\<lparr>exec := \<lambda>argv. Exited 0 ''{}''\<rparr>)
          (exampleRequest ''alice-token'' (exampleBody ''video/mp4'')) exampleWorld) =
       respondWithJSON StatusOK
         (exampleVideo\<lparr>VideoURL := Some
            ''https://tubely.s3.us-east-2.amazonaws.com/landscape/AAECAwQFBgcICQoLDA0ODxAREhMUFRYXGBkaGxwdHh8.mp4''\<rparr>)
   \<and> filter isPutObject (calls (snd (handlerUploadVideo exampleConfig
          (exampleEnv\<lparr>exec := \<lambda>argv. Exited 0 ''{}''\<rparr>)
          (exampleRequest ''alice-token'' (exampleBody ''video/mp4'')) exampleWorld))) =
       [PutObjectCall ''tubely'' ''landscape/AAECAwQFBgcICQoLDA0ODxAREhMUFRYXGBkaGxwdHh8.mp4''
          ''video/mp4'' ''mp4-bytes'']"
proof -
  let ?env = "exampleEnv\<lparr>exec := \<lambda>argv. Exited 0 ''{}''\<rparr>"
  let ?run = "handlerUploadVideo exampleConfig ?env
                (exampleRequest ''alice-token'' (exampleBody ''video/mp4'')) exampleWorld"
  have dec: "json_Unmarshal ?env (captured (exec ?env (ffprobeArgs ''/tmp/tubely-upload.mp4-1'')))
      = Inr \<lparr>Streams = []\<rparr>"
    by (simp add: json_Unmarshal_def captured_def exampleEnv_def)
  have none: "filter (\<lambda>s. CodecType s = ''video'') (Streams \<lparr>Streams = []\<rparr>) = []"
    by simp
  have tmp: "createTemp ?env = Inr ''/tmp/tubely-upload.mp4-1''"
    by (simp add: exampleEnv_def)
  have tok: "EncodeToString (map (cryptoRand ?env) [0..<32]) = ''AAECAwQFBgcICQoLDA0ODxAREhMUFRYXGBkaGxwdHh8''"
    using example_token by (simp add: exampleEnv_def)
  have out: "fst ?run = respondWithJSON StatusOK
         (exampleVideo\<lparr>VideoURL := Some
            ''https://tubely.s3.us-east-2.amazonaws.com/landscape/AAECAwQFBgcICQoLDA0ODxAREhMUFRYXGBkaGxwdHh8.mp4''\<rparr>)"
    using example_token by (simp add: eval_defs step_defs example_defs)
  have put: "filter isPutObject (calls (snd ?run)) =
       [PutObjectCall ''tubely'' ''landscape/AAECAwQFBgcICQoLDA0ODxAREhMUFRYXGBkaGxwdHh8.mp4''
          ''video/mp4'' ''mp4-bytes'']"
    using example_token by (simp add: eval_defs step_defs example_defs)
  note inst = C9_no_video_stream_is_landscape [OF dec none, of exampleWorld exampleConfig
      "exampleRequest ''alice-token'' (exampleBody ''video/mp4'')" exampleWorld]
  show ?thesis
    using inst dec none tmp out put by simp
qed

text \<open>
  C10. When the declared content type parses but has no slash, \<open>strings.Split\<close> returns
  one element and the index 1 of line 78 is out of range: the video handler panics before
  its check against \<open>video/mp4\<close>, after the record was looked up and with the multipart
  file closed by its deferred call. The thumbnail handler indexes the split of the raw
  header value in the same way (line 62) and panics likewise.
\<close>

theorem C10_missing_slash_panics:
  "(uuid_Parse env (PathValue r ''videoID'') = Inr videoId
    \<and> GetBearerToken env (Header r) = Inr token
    \<and> ValidateJWT env token (jwtSecret cfg) = Inr userId
    \<and> db w videoId = Some videoMetadata
    \<and> UserID videoMetadata = userId
    \<and> FormFile (MaxBytesReader (2 ^ 30) r) ''video'' = Inr videoFile
    \<and> ParseMediaType env (ContentType videoFile) = Inr mediaType
    \<and> CHR ''/'' \<notin> set mediaType
    \<longrightarrow> strings_Split mediaType CHR ''/'' = [mediaType]
      \<and> go_index (strings_Split mediaType CHR ''/'') 1 = None
      \<and> handlerUploadVideo cfg env r w =
            (panic indexPanic, multipart_Close (logCall (GetVideoCall videoId) w)))
   \<and> (uuid_Parse env (PathValue r ''videoID'') = Inr videoId
    \<and> GetBearerToken env (Header r) = Inr token
    \<and> ValidateJWT env token (jwtSecret cfg) = Inr userId
    \<and> FormFile r ''thumbnail'' = Inr file
    \<and> db w videoId = Some videoMetadata
    \<and> UserID videoMetadata = userId
    \<and> CHR ''/'' \<notin> set (ContentType file)
    \<longrightarrow> go_index (strings_Split (ContentType file) CHR ''/'') 1 = None
      \<and> handlerUploadThumbnail cfg env r w =
            (panic indexPanic, multipart_Close (logCall (GetVideoCall videoId) w)))"
proof (intro conjI impI)
  assume a: "uuid_Parse env (PathValue r ''videoID'') = Inr videoId
    \<and> GetBearerToken env (Header r) = Inr token
    \<and> ValidateJWT env token (jwtSecret cfg) = Inr userId
    \<and> db w videoId = Some videoMetadata
    \<and> UserID videoMetadata = userId
    \<and> FormFile (MaxBytesReader (2 ^ 30) r) ''video'' = Inr videoFile
    \<and> ParseMediaType env (ContentType videoFile) = Inr mediaType
    \<and> CHR ''/'' \<notin> set mediaType"
  then have split: "strings_Split mediaType CHR ''/'' = [mediaType]"
    by (simp add: strings_Split_no_sep)
  then show "strings_Split mediaType CHR ''/'' = [mediaType]" .
  from split show idx: "go_index (strings_Split mediaType CHR ''/'') 1 = None"
    by (simp add: go_index_def)
  from a idx have capped: "PathValue (MaxBytesReader (2 ^ 30) r) = PathValue r"
      "Header (MaxBytesReader (2 ^ 30) r) = Header r"
    by (simp_all add: MaxBytesReader_def)
  from a idx capped show "handlerUploadVideo cfg env r w =
            (panic indexPanic, multipart_Close (logCall (GetVideoCall videoId) w))"
    by (simp add: handlerUploadVideo_def uploadCapped_def uploadParsed_def db_GetVideo_def)
next
  assume a: "uuid_Parse env (PathValue r ''videoID'') = Inr videoId
    \<and> GetBearerToken env (Header r) = Inr token
    \<and> ValidateJWT env token (jwtSecret cfg) = Inr userId
    \<and> FormFile r ''thumbnail'' = Inr file
    \<and> db w videoId = Some videoMetadata
    \<and> UserID videoMetadata = userId
    \<and> CHR ''/'' \<notin> set (ContentType file)"
  then show idx: "go_index (strings_Split (ContentType file) CHR ''/'') 1 = None"
    by (simp add: strings_Split_no_sep go_index_def)
  from a idx show "handlerUploadThumbnail cfg env r w =
            (panic indexPanic, multipart_Close (logCall (GetVideoCall videoId) w))"
    by (simp add: handlerUploadThumbnail_def thumbnailParsed_def db_GetVideo_def)
qed

theorem C10_missing_slash_panics_witness:
  "ParseMediaType exampleEnv ''mp4'' = Inr ''mp4''
   \<and> CHR ''/'' \<notin> set ''mp4''
   \<and> FormFile (MaxBytesReader (2 ^ 30) (exampleRequest ''alice-token'' (exampleBody ''mp4''))) ''video''
       = Inr \<lparr>ContentType = ''mp4'', Data = ''mp4-bytes''\<rparr>
   \<and> handlerUploadVideo exampleConfig exampleEnv
         (exampleRequest ''alice-token'' (exampleBody ''mp4'')) exampleWorld =
       (panic indexPanic, multipart_Close (logCall (GetVideoCall ''video-1'') exampleWorld))
   \<and> FormFile (exampleRequest ''alice-token'' (exampleThumbnailBody ''png'')) ''thumbnail''
       = Inr \<lparr>ContentType = ''png'', Data = ''png-bytes''\<rparr>
   \<and> CHR ''/'' \<notin> set ''png''
   \<and> handlerUploadThumbnail exampleConfig exampleEnv
         (exampleRequest ''alice-token'' (exampleThumbnailBody ''png'')) exampleWorld =
       (panic indexPanic, multipart_Close (logCall (GetVideoCall ''video-1'') exampleWorld))"
proof -
  let ?v = "exampleRequest ''alice-token'' (exampleBody ''mp4'')"
  let ?t = "exampleRequest ''alice-token'' (exampleThumbnailBody ''png'')"
  have auth:
    "uuid_Parse exampleEnv (PathValue ?v ''videoID'') = Inr ''video-1''"
    "GetBearerToken exampleEnv (Header ?v) = Inr ''alice-token''"
    "uuid_Parse exampleEnv (PathValue ?t ''videoID'') = Inr ''video-1''"
    "GetBearerToken exampleEnv (Header ?t) = Inr ''alice-token''"
    "ValidateJWT exampleEnv ''alice-token'' (jwtSecret exampleConfig) = Inr ''alice''"
    "db exampleWorld ''video-1'' = Some exampleVideo"
    "UserID exampleVideo = ''alice''"
    by (simp_all add: example_defs)
  have parts:
    "FormFile (MaxBytesReader (2 ^ 30) ?v) ''video'' = Inr \<lparr>ContentType = ''mp4'', Data = ''mp4-bytes''\<rparr>"
    "FormFile ?t ''thumbnail'' = Inr \<lparr>ContentType = ''png'', Data = ''png-bytes''\<rparr>"
    by (simp_all add: example_defs eval_defs)
  have mt: "ParseMediaType exampleEnv ''mp4'' = Inr ''mp4''"
    by (simp add: exampleEnv_def)
  note inst1 = C10_missing_slash_panics [of exampleEnv ?v "''video-1''" "''alice-token''"
      exampleConfig "''alice''" exampleWorld exampleVideo
      "\<lparr>ContentType = ''mp4'', Data = ''mp4-bytes''\<rparr>" "''mp4''"]
  note inst2 = C10_missing_slash_panics [of exampleEnv ?t "''video-1''" "''alice-token''"
      exampleConfig "''alice''" exampleWorld exampleVideo _ _
      "\<lparr>ContentType = ''png'', Data = ''png-bytes''\<rparr>"]
  have v: "handlerUploadVideo exampleConfig exampleEnv ?v exampleWorld =
       (panic indexPanic, multipart_Close (logCall (GetVideoCall ''video-1'') exampleWorld))"
    using inst1 auth parts mt by simp
  have t: "handlerUploadThumbnail exampleConfig exampleEnv ?t exampleWorld =
       (panic indexPanic, multipart_Close (logCall (GetVideoCall ''video-1'') exampleWorld))"
    using inst2 auth parts by simp
  show ?thesis
    using v t parts mt by simp
qed

end
